theory Spec2Isabelle
  imports
    Main
    "HOL-Library.Word"
    "HOL-Library.DAList"
    "HOL-Library.Char_ord"
    "HOL-Library.List_Lexorder"
    "HOL-Library.Sublist"
begin

section \<open>OmniVault: the encrypted store, its crypto session and the daemon's write handler\<close>

text \<open>
  A shallow embedding of \<^verbatim>\<open>internal/store/crypto.go\<close> (type \<^verbatim>\<open>Crypto\<close>),
  of the encrypted store (type \<^verbatim>\<open>EncryptedStore\<close>), of \<^verbatim>\<open>vault.Secret\<close> and of the
  daemon's \<^verbatim>\<open>setSecret\<close> handler.

  Go strings are byte sequences and are modelled as \<open>string\<close>; \<^verbatim>\<open>[]byte\<close> is a list of
  8-bit words. A Go \<^verbatim>\<open>map[string]string\<close> is an association list with distinct keys
  (\<open>('k, 'v) alist\<close>): the order of the list is the order in which \<^verbatim>\<open>range\<close> visits the
  map, which Go leaves unspecified, so every theorem holds for every order.

  Everything outside the repository (Argon2id, AES-GCM, base64, encoding/json,
  path/filepath) is a field of the record \<open>lib\<close> and stays uninterpreted. The operating
  system (files, the random source, the clock) and the heap of key buffers are the
  record \<open>world\<close>, threaded through every operation.
\<close>

subsection \<open>Bytes and strings\<close>

type_synonym byte = "8 word"
type_synonym bytes = "byte list"

definition bytes_of_string :: "string \<Rightarrow> bytes" where
  "bytes_of_string s = map of_char s"

definition string_of_bytes :: "bytes \<Rightarrow> string" where
  "string_of_bytes b = map (\<lambda>x. char_of (unat x)) b"

definition zeroed :: "bytes \<Rightarrow> bool" where
  "zeroed b = list_all (\<lambda>x. x = 0) b"

subsection \<open>\<^verbatim>\<open>vault.Secret\<close> and \<^verbatim>\<open>vault.Metadata\<close>\<close>

text \<open>
  \<^verbatim>\<open>*Timestamp\<close> is an optional instant; an instant is an integer. The maps of a secret
  are read but never written by the store and are total lookups here (a nil map and an
  empty map both have no entry). The values of \<^verbatim>\<open>Extra\<close> have the Go type \<^verbatim>\<open>any\<close>.
\<close>

type_synonym Timestamp = int

typedecl any

record Metadata =
  CreatedAt :: "Timestamp option"
  ModifiedAt :: "Timestamp option"
  ExpiresAt :: "Timestamp option"
  Version :: string
  Tags :: "string \<rightharpoonup> string"
  Labels :: "string list"
  Provider :: string
  Path :: string
  Extra :: "string \<rightharpoonup> any"

record Secret =
  Value :: string
  ValueBytes :: bytes
  Fields :: "string \<rightharpoonup> string"
  Metadata :: Metadata

subsection \<open>\<^verbatim>\<open>Argon2Params\<close>, \<^verbatim>\<open>VaultMeta\<close>, \<^verbatim>\<open>VaultData\<close>\<close>

record Argon2Params =
  Time :: "32 word"
  Memory :: "32 word"
  Threads :: "8 word"
  KeyLen :: "32 word"

definition DefaultArgon2Params :: Argon2Params where
  "DefaultArgon2Params = \<lparr>Time = 3, Memory = 65536, Threads = 4, KeyLen = 32\<rparr>"

text \<open>\<^verbatim>\<open>Salt\<close> is a slice and may be nil after decoding the metadata file.\<close>

record VaultMeta =
  meta_Version :: int
  meta_CreatedAt :: Timestamp
  meta_Salt :: "bytes option"
  meta_Argon2Params :: Argon2Params
  meta_Verification :: string

record VaultData =
  Secrets :: "(string, string) alist"

subsection \<open>Errors\<close>

text \<open>
  \<open>New m\<close> is \<^verbatim>\<open>errors.New(m)\<close>, \<open>Errorf m e\<close> is \<^verbatim>\<open>fmt.Errorf(m + ": %w", e)\<close>,
  \<open>ErrSecretNotFound\<close> is the sentinel of package vault, \<open>LibError\<close> is an error
  returned by a library or by the operating system. \<open>NilPointerPanic\<close> and
  \<open>Argon2Panic\<close> are not error values: they are the run-time panic of a nil pointer
  dereference and the panic raised inside \<^verbatim>\<open>argon2.IDKey\<close>, which end the call.
\<close>

datatype error =
    New string
  | Errorf string error
  | ErrSecretNotFound
  | LibError
  | NotExist
  | NilPointerPanic
  | Argon2Panic

fun is_panic :: "error \<Rightarrow> bool" where
  "is_panic NilPointerPanic = True"
| "is_panic Argon2Panic = True"
| "is_panic _ = False"

subsection \<open>Libraries\<close>

record lib =
  argon2_IDKey :: "bytes \<Rightarrow> bytes \<Rightarrow> 32 word \<Rightarrow> 32 word \<Rightarrow> 8 word \<Rightarrow> 32 word \<Rightarrow> bytes"
  aes_NewCipher :: "bytes \<Rightarrow> bool"
  cipher_NewGCM :: "bytes \<Rightarrow> bool"
  gcm_Seal :: "bytes \<Rightarrow> bytes \<Rightarrow> bytes \<Rightarrow> bytes"
  gcm_Open :: "bytes \<Rightarrow> bytes \<Rightarrow> bytes \<Rightarrow> bytes option"
  base64_EncodeToString :: "bytes \<Rightarrow> string"
  base64_DecodeString :: "string \<Rightarrow> bytes option"
  json_Marshal_Secret :: "Secret \<Rightarrow> bytes option"
  json_Unmarshal_Secret :: "bytes \<Rightarrow> Secret option"
  json_Marshal_VaultData :: "VaultData option \<Rightarrow> bytes option"
  json_Unmarshal_VaultData :: "bytes \<Rightarrow> (string, string) alist option option"
  json_MarshalIndent_VaultMeta :: "VaultMeta option \<Rightarrow> bytes option"
  json_Unmarshal_VaultMeta :: "bytes \<Rightarrow> VaultMeta option"
  filepath_Dir :: "string \<Rightarrow> string"

text \<open>
  \<open>aes_NewCipher L k\<close> and \<open>cipher_NewGCM L k\<close> say whether the constructor succeeds on
  the key \<open>k\<close>. \<open>gcm_Seal L k n p\<close> is the ciphertext and tag that \<^verbatim>\<open>Seal\<close> appends for
  key \<open>k\<close>, nonce \<open>n\<close> and plaintext \<open>p\<close>; \<open>gcm_Open L k n c\<close> is \<open>None\<close> when the tag
  does not verify. The decoders return \<open>None\<close> on malformed input;
  \<open>json_Unmarshal_VaultData\<close> returns \<open>Some None\<close> when the document has no
  \<^verbatim>\<open>secrets\<close> member (a nil map). \<open>argon2_IDKey L\<close> is the key that
  \<^verbatim>\<open>argon2.IDKey\<close> returns when it returns; the parameters on which it panics
  instead are \<open>argon2_panics\<close> below.
\<close>

definition NonceSize :: nat where
  "NonceSize = 12"

definition verificationMagic :: string where
  "verificationMagic = ''omnivault-v1''"

subsection \<open>The world: files, random source, clock, key buffers\<close>

text \<open>
  \<^verbatim>\<open>os.WriteFile\<close> opens the file with \<^verbatim>\<open>O_TRUNC\<close> and then writes: both steps are
  events of the log, in the order in which another process can observe them. A call that
  fails (\<open>write_fails\<close>, \<open>mkdir_fails\<close>, \<open>read_fails\<close>) fails before it changes anything.
\<close>

datatype fs_event =
    EvMkdirAll string
  | EvTruncate string
  | EvWrite string bytes

record world =
  files :: "string \<rightharpoonup> bytes"
  fslog :: "fs_event list"
  mkdir_fails :: "string \<Rightarrow> bool"
  write_fails :: "string \<Rightarrow> bool"
  read_fails :: "string \<Rightarrow> bool"
  mem :: "bytes list"
  rng :: "nat \<Rightarrow> bytes option"
  rng_calls :: nat
  clock :: Timestamp

definition os_Stat_ok :: "string \<Rightarrow> world \<Rightarrow> bool" where
  "os_Stat_ok p w = (files w p \<noteq> None)"

definition os_MkdirAll :: "string \<Rightarrow> world \<Rightarrow> error option \<times> world" where
  "os_MkdirAll d w =
     (if mkdir_fails w d then (Some LibError, w)
      else (None, w\<lparr>fslog := fslog w @ [EvMkdirAll d]\<rparr>))"

text \<open>
  A write that fails is taken to fail when the file is opened, before the file is
  truncated. No statement below reads a file after a failed write of that file.
\<close>

definition os_WriteFile :: "string \<Rightarrow> bytes \<Rightarrow> world \<Rightarrow> error option \<times> world" where
  "os_WriteFile p d w =
     (if write_fails w p then (Some LibError, w)
      else (None, w\<lparr>files := (files w)(p \<mapsto> d),
                     fslog := fslog w @ [EvTruncate p, EvWrite p d]\<rparr>))"

definition os_ReadFile :: "string \<Rightarrow> world \<Rightarrow> error + bytes" where
  "os_ReadFile p w =
     (case files w p of
        None \<Rightarrow> Inl NotExist
      | Some d \<Rightarrow> if read_fails w p then Inl LibError else Inr d)"

text \<open>The states of the file system that a reader can see while a log is carried out.\<close>

fun apply_event :: "(string \<rightharpoonup> bytes) \<Rightarrow> fs_event \<Rightarrow> (string \<rightharpoonup> bytes)" where
  "apply_event fs (EvMkdirAll d) = fs"
| "apply_event fs (EvTruncate p) = fs(p \<mapsto> [])"
| "apply_event fs (EvWrite p d) = fs(p \<mapsto> (case fs p of None \<Rightarrow> d | Some old \<Rightarrow> old @ d))"

fun observable :: "(string \<rightharpoonup> bytes) \<Rightarrow> fs_event list \<Rightarrow> (string \<rightharpoonup> bytes) list" where
  "observable fs [] = [fs]"
| "observable fs (e # es) = fs # observable (apply_event fs e) es"

text \<open>
  \<^verbatim>\<open>rand.Read\<close> fills a buffer of \<open>n\<close> bytes or fails; the \<open>i\<close>-th call takes its
  result from \<open>rng w i\<close>.
\<close>

definition rand_Read :: "nat \<Rightarrow> world \<Rightarrow> bytes option \<times> world" where
  "rand_Read n w =
     (map_option (\<lambda>b. take n (b @ replicate n 0)) (rng w (rng_calls w)),
      w\<lparr>rng_calls := Suc (rng_calls w)\<rparr>)"

definition time_Now :: "world \<Rightarrow> Timestamp" where
  "time_Now w = clock w"

text \<open>
  Key buffers live in \<open>mem\<close>; a slice is the index of its buffer. \<open>alloc\<close> is the
  allocation of a fresh buffer, \<open>load\<close> reads one, \<open>wipe\<close> is the loop
  \<^verbatim>\<open>for i := range key { key[i] = 0 }\<close>.
\<close>

definition alloc :: "bytes \<Rightarrow> world \<Rightarrow> nat \<times> world" where
  "alloc b w = (length (mem w), w\<lparr>mem := mem w @ [b]\<rparr>)"

definition load :: "nat \<Rightarrow> world \<Rightarrow> bytes" where
  "load a w = (if a < length (mem w) then mem w ! a else [])"

definition wipe :: "nat \<Rightarrow> world \<Rightarrow> world" where
  "wipe a w = w\<lparr>mem := (mem w)[a := replicate (length (load a w)) 0]\<rparr>"

subsection \<open>The crypto session (\<^verbatim>\<open>internal/store/crypto.go\<close>)\<close>

record Crypto =
  params :: Argon2Params
  salt :: bytes
  key :: "nat option"

definition NewCrypto :: "bytes option \<Rightarrow> Argon2Params \<Rightarrow> world \<Rightarrow> (error + Crypto) \<times> world" where
  "NewCrypto salt0 ps w =
     (case (case salt0 of
              None \<Rightarrow>
                (case rand_Read 32 w of
                   (None, w1) \<Rightarrow> (Inl (Errorf ''failed to generate salt'' LibError), w1)
                 | (Some b, w1) \<Rightarrow> (Inr b, w1))
            | Some b \<Rightarrow> (Inr b, w)) of
        (Inl e, w1) \<Rightarrow> (Inl e, w1)
      | (Inr sl, w1) \<Rightarrow>
          if length sl < 16 then (Inl (New ''salt must be at least 16 bytes''), w1)
          else (Inr \<lparr>params = ps, salt = sl, key = None\<rparr>, w1))"

text \<open>
  \<^verbatim>\<open>argon2.IDKey\<close> panics when the number of passes or the number of threads is
  zero, and when the key length is zero. \<open>DeriveKey\<close> passes the parameters of the
  session on unchecked, so it panics with it; the panic ends every caller.
\<close>

definition argon2_panics :: "Argon2Params \<Rightarrow> bool" where
  "argon2_panics ps = (Time ps = 0 \<or> Threads ps = 0 \<or> KeyLen ps = 0)"

definition DeriveKey :: "lib \<Rightarrow> Crypto \<Rightarrow> string \<Rightarrow> world \<Rightarrow> (error + nat) \<times> world" where
  "DeriveKey L c password w =
     (if argon2_panics (params c) then (Inl Argon2Panic, w)
      else (case alloc (argon2_IDKey L (bytes_of_string password) (salt c)
                          (Time (params c)) (Memory (params c)) (Threads (params c)) (KeyLen (params c))) w of
              (a, w1) \<Rightarrow> (Inr a, w1)))"

definition Crypto_Unlock :: "lib \<Rightarrow> Crypto \<Rightarrow> string \<Rightarrow> world \<Rightarrow> (error + Crypto) \<times> world" where
  "Crypto_Unlock L c password w =
     (case DeriveKey L c password w of
        (Inl e, w1) \<Rightarrow> (Inl e, w1)
      | (Inr a, w1) \<Rightarrow> (Inr (c\<lparr>key := Some a\<rparr>), w1))"

definition Crypto_Lock :: "Crypto \<Rightarrow> world \<Rightarrow> Crypto \<times> world" where
  "Crypto_Lock c w =
     (case key c of
        None \<Rightarrow> (c, w)
      | Some a \<Rightarrow> (c\<lparr>key := None\<rparr>, wipe a w))"

definition IsUnlocked :: "Crypto \<Rightarrow> bool" where
  "IsUnlocked c = (key c \<noteq> None)"

definition Encrypt :: "lib \<Rightarrow> Crypto \<Rightarrow> bytes \<Rightarrow> world \<Rightarrow> (error + string) \<times> world" where
  "Encrypt L c plaintext w =
     (case key c of
        None \<Rightarrow> (Inl (New ''vault is locked''), w)
      | Some a \<Rightarrow>
          if \<not> aes_NewCipher L (load a w) then (Inl (Errorf ''failed to create cipher'' LibError), w)
          else if \<not> cipher_NewGCM L (load a w) then (Inl (Errorf ''failed to create GCM'' LibError), w)
          else (case rand_Read NonceSize w of
                  (None, w1) \<Rightarrow> (Inl (Errorf ''failed to generate nonce'' LibError), w1)
                | (Some nonce, w1) \<Rightarrow>
                    (Inr (base64_EncodeToString L (nonce @ gcm_Seal L (load a w) nonce plaintext)), w1)))"

definition Decrypt :: "lib \<Rightarrow> Crypto \<Rightarrow> string \<Rightarrow> world \<Rightarrow> error + bytes" where
  "Decrypt L c encoded w =
     (case key c of
        None \<Rightarrow> Inl (New ''vault is locked'')
      | Some a \<Rightarrow>
          (case base64_DecodeString L encoded of
             None \<Rightarrow> Inl (Errorf ''failed to decode ciphertext'' LibError)
           | Some ciphertext \<Rightarrow>
               if \<not> aes_NewCipher L (load a w) then Inl (Errorf ''failed to create cipher'' LibError)
               else if \<not> cipher_NewGCM L (load a w) then Inl (Errorf ''failed to create GCM'' LibError)
               else if length ciphertext < NonceSize then Inl (New ''ciphertext too short'')
               else (case gcm_Open L (load a w) (take NonceSize ciphertext) (drop NonceSize ciphertext) of
                       None \<Rightarrow> Inl (Errorf ''failed to decrypt'' LibError)
                     | Some plaintext \<Rightarrow> Inr plaintext)))"

definition EncryptString :: "lib \<Rightarrow> Crypto \<Rightarrow> string \<Rightarrow> world \<Rightarrow> (error + string) \<times> world" where
  "EncryptString L c plaintext w = Encrypt L c (bytes_of_string plaintext) w"

definition DecryptString :: "lib \<Rightarrow> Crypto \<Rightarrow> string \<Rightarrow> world \<Rightarrow> error + string" where
  "DecryptString L c encoded w =
     (case Decrypt L c encoded w of
        Inl e \<Rightarrow> Inl e
      | Inr plaintext \<Rightarrow> Inr (string_of_bytes plaintext))"

text \<open>
  \<open>verify_blob\<close> is the body of \<^verbatim>\<open>VerifyPassword\<close> after the key derivation;
  \<^verbatim>\<open>subtle.ConstantTimeCompare(x, y) == 1\<close> is equality of the two byte strings. The
  deferred function wipes the temporary key on every return path; it is registered after
  the derivation, so a panic of the derivation leaves nothing to wipe.
\<close>

definition verify_blob :: "lib \<Rightarrow> bytes \<Rightarrow> string \<Rightarrow> bool" where
  "verify_blob L k verificationBlob =
     (case base64_DecodeString L verificationBlob of
        None \<Rightarrow> False
      | Some ciphertext \<Rightarrow>
          if \<not> aes_NewCipher L k then False
          else if \<not> cipher_NewGCM L k then False
          else if length ciphertext < NonceSize then False
          else (case gcm_Open L k (take NonceSize ciphertext) (drop NonceSize ciphertext) of
                  None \<Rightarrow> False
                | Some plaintext \<Rightarrow> plaintext = bytes_of_string verificationMagic))"

definition VerifyPassword ::
  "lib \<Rightarrow> Crypto \<Rightarrow> string \<Rightarrow> string \<Rightarrow> world \<Rightarrow> (error + bool) \<times> world" where
  "VerifyPassword L c password verificationBlob w =
     (case DeriveKey L c password w of
        (Inl e, w1) \<Rightarrow> (Inl e, w1)
      | (Inr a, w1) \<Rightarrow> (Inr (verify_blob L (load a w1) verificationBlob), wipe a w1))"

definition CreateVerificationBlob :: "lib \<Rightarrow> Crypto \<Rightarrow> world \<Rightarrow> (error + string) \<times> world" where
  "CreateVerificationBlob L c w = EncryptString L c verificationMagic w"

subsection \<open>The encrypted store\<close>

record EncryptedStore =
  vaultPath :: string
  metaPath :: string
  crypto :: "Crypto option"
  meta :: "VaultMeta option"
  data :: "VaultData option"
  dirty :: bool
  autoSave :: bool
  unlockTime :: Timestamp

definition NewEncryptedStore :: "string \<Rightarrow> string \<Rightarrow> EncryptedStore" where
  "NewEncryptedStore vp mp =
     \<lparr>vaultPath = vp, metaPath = mp, crypto = None, meta = None, data = None,
      dirty = False, autoSave = True, unlockTime = 0\<rparr>"

definition VaultExists :: "EncryptedStore \<Rightarrow> world \<Rightarrow> bool" where
  "VaultExists s w = os_Stat_ok (metaPath s) w"

definition saveMeta :: "lib \<Rightarrow> EncryptedStore \<Rightarrow> world \<Rightarrow> error option \<times> world" where
  "saveMeta L s w =
     (case os_MkdirAll (filepath_Dir L (metaPath s)) w of
        (Some e, w1) \<Rightarrow> (Some e, w1)
      | (None, w1) \<Rightarrow>
          (case json_MarshalIndent_VaultMeta L (meta s) of
             None \<Rightarrow> (Some LibError, w1)
           | Some d \<Rightarrow> os_WriteFile (metaPath s) d w1))"

definition loadMeta :: "lib \<Rightarrow> EncryptedStore \<Rightarrow> world \<Rightarrow> error option \<times> EncryptedStore" where
  "loadMeta L s w =
     (case os_ReadFile (metaPath s) w of
        Inl e \<Rightarrow> (Some e, s)
      | Inr d \<Rightarrow>
          (case json_Unmarshal_VaultMeta L d of
             None \<Rightarrow> (Some LibError, s)
           | Some m \<Rightarrow> (None, s\<lparr>meta := Some m\<rparr>)))"

definition saveData :: "lib \<Rightarrow> EncryptedStore \<Rightarrow> world \<Rightarrow> error option \<times> EncryptedStore \<times> world" where
  "saveData L s w =
     (case os_MkdirAll (filepath_Dir L (vaultPath s)) w of
        (Some e, w1) \<Rightarrow> (Some e, s, w1)
      | (None, w1) \<Rightarrow>
          (case json_Marshal_VaultData L (data s) of
             None \<Rightarrow> (Some LibError, s, w1)
           | Some d \<Rightarrow>
               (case os_WriteFile (vaultPath s) d w1 of
                  (Some e, w2) \<Rightarrow> (Some e, s, w2)
                | (None, w2) \<Rightarrow> (None, s\<lparr>dirty := False\<rparr>, w2))))"

definition loadData :: "lib \<Rightarrow> EncryptedStore \<Rightarrow> world \<Rightarrow> error option \<times> EncryptedStore" where
  "loadData L s w =
     (case os_ReadFile (vaultPath s) w of
        Inl e \<Rightarrow>
          if e = NotExist then (None, s\<lparr>data := Some \<lparr>Secrets = DAList.empty\<rparr>\<rparr>)
          else (Some e, s)
      | Inr d \<Rightarrow>
          (case json_Unmarshal_VaultData L d of
             None \<Rightarrow> (Some LibError, s)
           | Some secs \<Rightarrow>
               (None, s\<lparr>data := Some \<lparr>Secrets = (case secs of None \<Rightarrow> DAList.empty | Some m \<Rightarrow> m)\<rparr>\<rparr>)))"

definition Initialize :: "lib \<Rightarrow> EncryptedStore \<Rightarrow> string \<Rightarrow> world \<Rightarrow> error option \<times> EncryptedStore \<times> world" where
  "Initialize L s password w =
     (if VaultExists s w then (Some (New ''vault already exists''), s, w)
      else
        (case NewCrypto None DefaultArgon2Params w of
           (Inl e, w1) \<Rightarrow> (Some (Errorf ''failed to create crypto'' e), s, w1)
         | (Inr c0, w1) \<Rightarrow>
             (case Crypto_Unlock L c0 password w1 of
                (Inl e, w2) \<Rightarrow> (Some e, s, w2)
              | (Inr c, w2) \<Rightarrow>
                  (case CreateVerificationBlob L c w2 of
                     (Inl e, w3) \<Rightarrow>
                       (Some (Errorf ''failed to create verification'' e), s, snd (Crypto_Lock c w3))
                   | (Inr verification, w3) \<Rightarrow>
                       (let s1 = s\<lparr>meta := Some \<lparr>meta_Version = 1, meta_CreatedAt = time_Now w3,
                                                  meta_Salt = Some (salt c), meta_Argon2Params = params c,
                                                  meta_Verification = verification\<rparr>,
                                   data := Some \<lparr>Secrets = DAList.empty\<rparr>,
                                   crypto := Some c,
                                   unlockTime := time_Now w3\<rparr>
                        in (case saveMeta L s1 w3 of
                              (Some e, w4) \<Rightarrow> (Some (Errorf ''failed to save metadata'' e), s1, w4)
                            | (None, w4) \<Rightarrow>
                                (case saveData L s1 w4 of
                                   (Some e, s2, w5) \<Rightarrow> (Some (Errorf ''failed to save data'' e), s2, w5)
                                 | (None, s2, w5) \<Rightarrow> (None, s2, w5))))))))"

definition Store_Unlock :: "lib \<Rightarrow> EncryptedStore \<Rightarrow> string \<Rightarrow> world \<Rightarrow> error option \<times> EncryptedStore \<times> world" where
  "Store_Unlock L s password w =
     (if \<not> VaultExists s w then (Some (New ''vault does not exist, run init first''), s, w)
      else
        (case loadMeta L s w of
           (Some e, s1) \<Rightarrow> (Some (Errorf ''failed to load metadata'' e), s1, w)
         | (None, s1) \<Rightarrow>
             (case meta s1 of
                None \<Rightarrow> (Some NilPointerPanic, s1, w)
              | Some m \<Rightarrow>
                  (case NewCrypto (meta_Salt m) (meta_Argon2Params m) w of
                     (Inl e, w1) \<Rightarrow> (Some (Errorf ''failed to create crypto'' e), s1, w1)
                   | (Inr c0, w1) \<Rightarrow>
                       (case VerifyPassword L c0 password (meta_Verification m) w1 of
                          (Inl e, w2) \<Rightarrow> (Some e, s1, w2)
                        | (Inr ok, w2) \<Rightarrow>
                            if \<not> ok then (Some (New ''invalid password''), s1, w2)
                            else
                              (case Crypto_Unlock L c0 password w2 of
                                 (Inl e, w3) \<Rightarrow> (Some e, s1, w3)
                               | (Inr c, w3) \<Rightarrow>
                                   (case loadData L (s1\<lparr>crypto := Some c, unlockTime := time_Now w3\<rparr>) w3 of
                                      (Some e, s3) \<Rightarrow>
                                        (Some (Errorf ''failed to load vault data'' e),
                                         s3\<lparr>crypto := None\<rparr>, snd (Crypto_Lock c w3))
                                    | (None, s3) \<Rightarrow> (None, s3, w3))))))))"

definition Store_Lock :: "lib \<Rightarrow> EncryptedStore \<Rightarrow> world \<Rightarrow> error option \<times> EncryptedStore \<times> world" where
  "Store_Lock L s w =
     (case crypto s of
        None \<Rightarrow> (None, s, w)
      | Some c \<Rightarrow>
          (case (if dirty s then saveData L s w else (None, s, w)) of
             (Some e, s1, w1) \<Rightarrow> (Some (Errorf ''failed to save data'' e), s1, w1)
           | (None, s1, w1) \<Rightarrow>
               (None, s1\<lparr>crypto := None, data := None, dirty := False\<rparr>, snd (Crypto_Lock c w1))))"

definition isLockedUnsafe :: "EncryptedStore \<Rightarrow> bool" where
  "isLockedUnsafe s = (case crypto s of None \<Rightarrow> True | Some c \<Rightarrow> \<not> IsUnlocked c)"

definition IsLocked :: "EncryptedStore \<Rightarrow> bool" where
  "IsLocked s = isLockedUnsafe s"

definition Store_Get :: "lib \<Rightarrow> EncryptedStore \<Rightarrow> string \<Rightarrow> world \<Rightarrow> error + Secret" where
  "Store_Get L s path w =
     (if isLockedUnsafe s then Inl (New ''vault is locked'')
      else
        (case data s of
           None \<Rightarrow> Inl NilPointerPanic
         | Some d \<Rightarrow>
             (case DAList.lookup (Secrets d) path of
                None \<Rightarrow> Inl ErrSecretNotFound
              | Some encrypted \<Rightarrow>
                  (case crypto s of
                     None \<Rightarrow> Inl NilPointerPanic
                   | Some c \<Rightarrow>
                       (case DecryptString L c encrypted w of
                          Inl e \<Rightarrow> Inl (Errorf ''failed to decrypt secret'' e)
                        | Inr decrypted \<Rightarrow>
                            (case json_Unmarshal_Secret L (bytes_of_string decrypted) of
                               None \<Rightarrow> Inl (Errorf ''failed to unmarshal secret'' LibError)
                             | Some secret \<Rightarrow> Inr secret))))))"

text \<open>
  \<^verbatim>\<open>Set\<close> receives a pointer to the caller's secret. The second component of the result
  is the value of the caller's object when the call returns.
\<close>

definition stamp :: "Timestamp \<Rightarrow> Secret \<Rightarrow> Secret" where
  "stamp now secret =
     (let secret1 = (if CreatedAt (Metadata secret) = None
                     then secret\<lparr>Metadata := (Metadata secret)\<lparr>CreatedAt := Some now\<rparr>\<rparr>
                     else secret)
      in secret1\<lparr>Metadata := (Metadata secret1)\<lparr>ModifiedAt := Some now\<rparr>\<rparr>)"

definition Store_Set ::
  "lib \<Rightarrow> EncryptedStore \<Rightarrow> string \<Rightarrow> Secret \<Rightarrow> world \<Rightarrow> error option \<times> Secret \<times> EncryptedStore \<times> world" where
  "Store_Set L s path secret w =
     (if isLockedUnsafe s then (Some (New ''vault is locked''), secret, s, w)
      else
        (let secret2 = stamp (time_Now w) secret in
         (case json_Marshal_Secret L secret2 of
            None \<Rightarrow> (Some (Errorf ''failed to marshal secret'' LibError), secret2, s, w)
          | Some d \<Rightarrow>
              (case crypto s of
                 None \<Rightarrow> (Some NilPointerPanic, secret2, s, w)
               | Some c \<Rightarrow>
                   (case EncryptString L c (string_of_bytes d) w of
                      (Inl e, w1) \<Rightarrow> (Some (Errorf ''failed to encrypt secret'' e), secret2, s, w1)
                    | (Inr encrypted, w1) \<Rightarrow>
                        (case data s of
                           None \<Rightarrow> (Some NilPointerPanic, secret2, s, w1)
                         | Some dt \<Rightarrow>
                             (let s1 = s\<lparr>data := Some (dt\<lparr>Secrets := DAList.update path encrypted (Secrets dt)\<rparr>),
                                         dirty := True\<rparr>
                              in if autoSave s
                                 then (case saveData L s1 w1 of (r, s2, w2) \<Rightarrow> (r, secret2, s2, w2))
                                 else (None, secret2, s1, w1))))))))"

definition Store_Delete :: "lib \<Rightarrow> EncryptedStore \<Rightarrow> string \<Rightarrow> world \<Rightarrow> error option \<times> EncryptedStore \<times> world" where
  "Store_Delete L s path w =
     (if isLockedUnsafe s then (Some (New ''vault is locked''), s, w)
      else
        (case data s of
           None \<Rightarrow> (Some NilPointerPanic, s, w)
         | Some dt \<Rightarrow>
             (let s1 = s\<lparr>data := Some (dt\<lparr>Secrets := DAList.delete path (Secrets dt)\<rparr>), dirty := True\<rparr>
              in if autoSave s then saveData L s1 w else (None, s1, w))))"

definition Store_Exists :: "EncryptedStore \<Rightarrow> string \<Rightarrow> error + bool" where
  "Store_Exists s path =
     (if isLockedUnsafe s then Inl (New ''vault is locked'')
      else (case data s of
              None \<Rightarrow> Inl NilPointerPanic
            | Some d \<Rightarrow> Inr (DAList.lookup (Secrets d) path \<noteq> None)))"

text \<open>
  The loop of \<^verbatim>\<open>List\<close> over the map, with the slice \<open>paths\<close> as accumulator;
  \<^verbatim>\<open>strings.HasPrefix\<close> is \<open>prefix\<close> and \<^verbatim>\<open>sort.Strings\<close> sorts in ascending byte-wise
  lexicographic order.
\<close>

fun list_loop :: "string \<Rightarrow> (string \<times> string) list \<Rightarrow> string list \<Rightarrow> string list" where
  "list_loop pfx [] paths = paths"
| "list_loop pfx ((path, encrypted) # rest) paths =
     list_loop pfx rest (if pfx = [] \<or> prefix pfx path then paths @ [path] else paths)"

definition sort_Strings :: "string list \<Rightarrow> string list" where
  "sort_Strings paths = sort paths"

definition Store_List :: "EncryptedStore \<Rightarrow> string \<Rightarrow> error + string list" where
  "Store_List s pfx =
     (if isLockedUnsafe s then Inl (New ''vault is locked'')
      else (case data s of
              None \<Rightarrow> Inl NilPointerPanic
            | Some d \<Rightarrow> Inr (sort_Strings (list_loop pfx (DAList.impl_of (Secrets d)) []))))"

definition SecretCount :: "EncryptedStore \<Rightarrow> nat" where
  "SecretCount s = (case data s of None \<Rightarrow> 0 | Some d \<Rightarrow> length (DAList.impl_of (Secrets d)))"

text \<open>
  The re-encryption loop of \<^verbatim>\<open>ChangePassword\<close>: \<open>c\<close> is the store's session, \<open>nc\<close> the
  new one, \<open>newSecrets\<close> the map under construction. Each failing branch locks the new
  session before it returns.
\<close>

fun reencrypt ::
  "lib \<Rightarrow> Crypto \<Rightarrow> Crypto \<Rightarrow> (string \<times> string) list \<Rightarrow> (string, string) alist \<Rightarrow> world
     \<Rightarrow> (error + (string, string) alist) \<times> world" where
  "reencrypt L c nc [] newSecrets w = (Inr newSecrets, w)"
| "reencrypt L c nc ((path, encrypted) # rest) newSecrets w =
     (case DecryptString L c encrypted w of
        Inl e \<Rightarrow> (Inl (Errorf (''failed to decrypt secret '' @ path) e), snd (Crypto_Lock nc w))
      | Inr decrypted \<Rightarrow>
          (case EncryptString L nc decrypted w of
             (Inl e, w1) \<Rightarrow> (Inl (Errorf (''failed to re-encrypt secret '' @ path) e), snd (Crypto_Lock nc w1))
           | (Inr reEncrypted, w1) \<Rightarrow>
               reencrypt L c nc rest (DAList.update path reEncrypted newSecrets) w1))"

definition ChangePassword ::
  "lib \<Rightarrow> EncryptedStore \<Rightarrow> string \<Rightarrow> string \<Rightarrow> world \<Rightarrow> error option \<times> EncryptedStore \<times> world" where
  "ChangePassword L s oldPassword newPassword w =
     (case meta s of
        None \<Rightarrow> (Some NilPointerPanic, s, w)
      | Some m \<Rightarrow>
     (case crypto s of
        None \<Rightarrow> (Some NilPointerPanic, s, w)
      | Some c \<Rightarrow>
     (case VerifyPassword L c oldPassword (meta_Verification m) w of
        (Inl e, w1) \<Rightarrow> (Some e, s, w1)
      | (Inr ok, w1) \<Rightarrow>
     if \<not> ok then (Some (New ''invalid current password''), s, w1)
     else
     (case NewCrypto None DefaultArgon2Params w1 of
        (Inl e, w2) \<Rightarrow> (Some (Errorf ''failed to create crypto'' e), s, w2)
      | (Inr nc0, w2) \<Rightarrow>
     (case Crypto_Unlock L nc0 newPassword w2 of
        (Inl e, w3) \<Rightarrow> (Some e, s, w3)
      | (Inr newCrypto, w3) \<Rightarrow>
     (case CreateVerificationBlob L newCrypto w3 of
        (Inl e, w4) \<Rightarrow>
          (Some (Errorf ''failed to create verification'' e), s, snd (Crypto_Lock newCrypto w4))
      | (Inr verification, w4) \<Rightarrow>
     (case data s of
        None \<Rightarrow> (Some NilPointerPanic, s, w4)
      | Some d \<Rightarrow>
     (case reencrypt L c newCrypto (DAList.impl_of (Secrets d)) DAList.empty w4 of
        (Inl e, w5) \<Rightarrow> (Some e, s, w5)
      | (Inr newSecrets, w5) \<Rightarrow>
          (let s2 = s\<lparr>meta := Some (m\<lparr>meta_Salt := Some (salt newCrypto),
                                       meta_Argon2Params := params newCrypto,
                                       meta_Verification := verification\<rparr>),
                      data := Some (d\<lparr>Secrets := newSecrets\<rparr>),
                      crypto := Some newCrypto\<rparr>;
               w6 = snd (Crypto_Lock c w5)
           in (case saveMeta L s2 w6 of
                 (Some e, w7) \<Rightarrow> (Some (Errorf ''failed to save metadata'' e), s2, w7)
               | (None, w7) \<Rightarrow>
                   (case saveData L s2 w7 of
                      (Some e, s3, w8) \<Rightarrow> (Some (Errorf ''failed to save data'' e), s3, w8)
                    | (None, s3, w8) \<Rightarrow> (None, s3, w8))))))))))))"

subsection \<open>The daemon's handler for \<^verbatim>\<open>PUT /secret/<path>\<close>\<close>

record SetSecretRequest =
  req_Value :: string
  req_Fields :: "string \<rightharpoonup> string"
  req_Tags :: "string \<rightharpoonup> string"

text \<open>
  \<open>WriteError status message code\<close> is \<^verbatim>\<open>writeError\<close> with a fixed message,
  \<open>WriteInternalError e\<close> is \<^verbatim>\<open>writeError(w, 500, err.Error(), ErrCodeInternalError)\<close>,
  \<open>WriteSuccess message\<close> is the 200 reply. The request body arrives decoded; \<open>None\<close>
  is a body that \<^verbatim>\<open>json.NewDecoder(r.Body).Decode\<close> rejects.
\<close>

datatype response =
    WriteError nat string string
  | WriteInternalError error
  | WriteSuccess string

definition request_secret :: "SetSecretRequest \<Rightarrow> Secret" where
  "request_secret req =
     \<lparr>Value = req_Value req, ValueBytes = [], Fields = req_Fields req,
      Metadata = \<lparr>CreatedAt = None, ModifiedAt = None, ExpiresAt = None, Version = [],
                  Tags = req_Tags req, Labels = [], Provider = [], Path = [], Extra = Map.empty\<rparr>\<rparr>"

definition setSecret ::
  "lib \<Rightarrow> EncryptedStore \<Rightarrow> SetSecretRequest option \<Rightarrow> string \<Rightarrow> world
     \<Rightarrow> response \<times> EncryptedStore \<times> world" where
  "setSecret L s body path w =
     (case body of
        None \<Rightarrow> (WriteError 400 ''invalid request body'' ''INVALID_REQUEST'', s, w)
      | Some req \<Rightarrow>
          (case Store_Set L s path (request_secret req) w of
             (Some e, secret, s1, w1) \<Rightarrow> (WriteInternalError e, s1, w1)
           | (None, secret, s1, w1) \<Rightarrow> (WriteSuccess ''secret saved'', s1, w1)))"

definition strings_TrimPrefix :: "string \<Rightarrow> string \<Rightarrow> string" where
  "strings_TrimPrefix x pfx = (if prefix pfx x then drop (length pfx) x else x)"

text \<open>\<^verbatim>\<open>handleSecret\<close> for a request whose method is PUT.\<close>

definition handleSecret_PUT ::
  "lib \<Rightarrow> EncryptedStore \<Rightarrow> string \<Rightarrow> SetSecretRequest option \<Rightarrow> world
     \<Rightarrow> response \<times> EncryptedStore \<times> world" where
  "handleSecret_PUT L s url_path body w =
     (let path = strings_TrimPrefix url_path ''/secret/'' in
      if path = [] then (WriteError 400 ''path is required'' ''INVALID_REQUEST'', s, w)
      else if IsLocked s then (WriteError 403 ''vault is locked'' ''VAULT_LOCKED'', s, w)
      else setSecret L s body path w)"

subsection \<open>A small library instance and concrete states\<close>

text \<open>
  An instance of \<open>lib\<close> on which the operations can be run: the key is the password
  padded to 32 bytes, sealing prefixes the key, base64 is the identity on bytes, a secret
  is encoded as its two timestamps and its value, the metadata as salt, Argon2
  parameters and verification blob. It is used only to evaluate the model at concrete
  inputs.

  \<^verbatim>\<open>json.Marshal\<close> coerces every string to valid UTF-8: each byte that does not start
  a well-formed UTF-8 sequence is replaced by the replacement character U+FFFD (the bytes
  EF BF BD), and decoding returns the coerced string. The instance does the same to the
  value of a secret. \<open>rune_size\<close> is the length of the well-formed sequence at the head
  of a byte string (0 if there is none), following the table of \<^verbatim>\<open>unicode/utf8\<close>.
\<close>

definition cont_byte :: "nat \<Rightarrow> bool" where
  "cont_byte b = (0x80 \<le> b \<and> b \<le> 0xBF)"

definition rune_size :: "nat list \<Rightarrow> nat" where
  "rune_size bs =
     (case bs of
        [] \<Rightarrow> 0
      | b0 # r1 \<Rightarrow>
          if b0 < 0x80 then 1
          else if 0xC2 \<le> b0 \<and> b0 \<le> 0xDF then
            (case r1 of b1 # r2 \<Rightarrow> if cont_byte b1 then 2 else 0 | [] \<Rightarrow> 0)
          else if 0xE0 \<le> b0 \<and> b0 \<le> 0xEF then
            (case r1 of
               b1 # b2 # r3 \<Rightarrow>
                 if (if b0 = 0xE0 then 0xA0 else 0x80) \<le> b1 \<and> b1 \<le> (if b0 = 0xED then 0x9F else 0xBF)
                    \<and> cont_byte b2
                 then 3 else 0
             | _ \<Rightarrow> 0)
          else if 0xF0 \<le> b0 \<and> b0 \<le> 0xF4 then
            (case r1 of
               b1 # b2 # b3 # r4 \<Rightarrow>
                 if (if b0 = 0xF0 then 0x90 else 0x80) \<le> b1 \<and> b1 \<le> (if b0 = 0xF4 then 0x8F else 0xBF)
                    \<and> cont_byte b2 \<and> cont_byte b3
                 then 4 else 0
             | _ \<Rightarrow> 0)
          else 0)"

definition replacement_char :: string where
  "replacement_char = [CHR 0xEF, CHR 0xBF, CHR 0xBD]"

text \<open>\<open>coerce_loop k s\<close>: the first \<open>k\<close> bytes of \<open>s\<close> belong to a sequence already accepted.\<close>

fun coerce_loop :: "nat \<Rightarrow> string \<Rightarrow> string" where
  "coerce_loop k [] = []"
| "coerce_loop (Suc k) (c # cs) = c # coerce_loop k cs"
| "coerce_loop 0 (c # cs) =
     (if rune_size (map of_char (c # cs)) = 0 then replacement_char @ coerce_loop 0 cs
      else c # coerce_loop (rune_size (map of_char (c # cs)) - 1) cs)"

definition to_valid_utf8 :: "string \<Rightarrow> string" where
  "to_valid_utf8 s = coerce_loop 0 s"

definition params_bytes :: "Argon2Params \<Rightarrow> bytes" where
  "params_bytes ps = [ucast (Time ps), Threads ps, ucast (KeyLen ps)]"

definition bytes_params :: "bytes \<Rightarrow> Argon2Params" where
  "bytes_params b = \<lparr>Time = ucast (b ! 0), Memory = 65536, Threads = b ! 1, KeyLen = ucast (b ! 2)\<rparr>"

definition ts_byte :: "Timestamp option \<Rightarrow> byte" where
  "ts_byte t = (case t of None \<Rightarrow> 0 | Some i \<Rightarrow> word_of_int i)"

definition byte_ts :: "byte \<Rightarrow> Timestamp option" where
  "byte_ts b = (if b = 0 then None else Some (uint b))"

definition test_lib :: lib where
  "test_lib =
     \<lparr>argon2_IDKey = (\<lambda>pw sl t m th kl. take 32 (pw @ replicate 32 0)),
      aes_NewCipher = (\<lambda>k. length k = 16 \<or> length k = 24 \<or> length k = 32),
      cipher_NewGCM = (\<lambda>k. True),
      gcm_Seal = (\<lambda>k n p. k @ p),
      gcm_Open = (\<lambda>k n c. if take (length k) c = k then Some (drop (length k) c) else None),
      base64_EncodeToString = string_of_bytes,
      base64_DecodeString = (\<lambda>x. Some (bytes_of_string x)),
      json_Marshal_Secret =
        (\<lambda>x. Some (ts_byte (CreatedAt (Metadata x)) # ts_byte (ModifiedAt (Metadata x))
                       # bytes_of_string (to_valid_utf8 (Value x)))),
      json_Unmarshal_Secret =
        (\<lambda>b. case b of
                c # m # v \<Rightarrow>
                  Some \<lparr>Value = string_of_bytes v, ValueBytes = [], Fields = Map.empty,
                        Metadata = \<lparr>CreatedAt = byte_ts c, ModifiedAt = byte_ts m, ExpiresAt = None,
                                    Version = [], Tags = Map.empty, Labels = [], Provider = [],
                                    Path = [], Extra = Map.empty\<rparr>\<rparr>
              | _ \<Rightarrow> None),
      json_Marshal_VaultData =
        (\<lambda>d. Some (case d of None \<Rightarrow> [0] | Some v \<Rightarrow> [1, of_nat (length (DAList.impl_of (Secrets v)))])),
      json_Unmarshal_VaultData = (\<lambda>b. if b = [] then None else Some None),
      json_MarshalIndent_VaultMeta =
        (\<lambda>m. case m of
                None \<Rightarrow> Some []
              | Some v \<Rightarrow> Some ((case meta_Salt v of None \<Rightarrow> [] | Some sl \<Rightarrow> sl)
                                @ params_bytes (meta_Argon2Params v)
                                @ bytes_of_string (meta_Verification v))),
      json_Unmarshal_VaultMeta =
        (\<lambda>b. if length b < 35 then None
              else Some \<lparr>meta_Version = 1, meta_CreatedAt = 0, meta_Salt = Some (take 32 b),
                         meta_Argon2Params = bytes_params (take 3 (drop 32 b)),
                         meta_Verification = string_of_bytes (drop 35 b)\<rparr>),
      filepath_Dir = (\<lambda>p. ''.'')\<rparr>"

definition test_world :: world where
  "test_world =
     \<lparr>files = Map.empty, fslog = [], mkdir_fails = (\<lambda>d. False), write_fails = (\<lambda>p. False),
      read_fails = (\<lambda>p. False), mem = [], rng = (\<lambda>i. Some []), rng_calls = 0, clock = 1\<rparr>"

text \<open>An unlocked store whose key buffer is buffer 0 of \<open>unlocked_world\<close>.\<close>

definition test_password :: string where
  "test_password = ''correcthorse''"

definition test_key :: bytes where
  "test_key = take 32 (bytes_of_string test_password @ replicate 32 0)"

definition unlocked_store :: EncryptedStore where
  "unlocked_store =
     \<lparr>vaultPath = ''vault.enc'', metaPath = ''vault.meta'',
      crypto = Some \<lparr>params = DefaultArgon2Params, salt = replicate 32 0, key = Some 0\<rparr>,
      meta = Some \<lparr>meta_Version = 1, meta_CreatedAt = 1, meta_Salt = Some (replicate 32 0),
                   meta_Argon2Params = DefaultArgon2Params,
                   meta_Verification = string_of_bytes (replicate 12 0 @ test_key @ bytes_of_string verificationMagic)\<rparr>,
      data = Some \<lparr>Secrets = DAList.empty\<rparr>,
      dirty = False, autoSave = True, unlockTime = 1\<rparr>"

definition unlocked_world :: world where
  "unlocked_world = test_world\<lparr>mem := [test_key]\<rparr>"

text \<open>The same store holding three secrets (scenario S4 of the specification).\<close>

definition list_data :: VaultData where
  "list_data =
     \<lparr>Secrets = DAList.update ''b/1'' ''x'' (DAList.update ''a/2'' ''y'' (DAList.update ''a/1'' ''z'' DAList.empty))\<rparr>"

definition list_store :: EncryptedStore where
  "list_store = unlocked_store\<lparr>data := Some list_data\<rparr>"



text \<open>A secret as the command-line client sends it (scenario S1).\<close>

definition test_request :: SetSecretRequest where
  "test_request = \<lparr>req_Value = ''s3cret'', req_Fields = Map.empty, req_Tags = Map.empty\<rparr>"

definition test_secret :: Secret where
  "test_secret = request_secret test_request"

text \<open>The store after \<open>Lock\<close>: no session, no decrypted data.\<close>

definition locked_store :: EncryptedStore where
  "locked_store = unlocked_store\<lparr>crypto := None, data := None\<rparr>"

text \<open>A fresh store, and a world in which the metadata file cannot be written.\<close>

definition fresh_store :: EncryptedStore where
  "fresh_store = NewEncryptedStore ''vault.enc'' ''vault.meta''"

definition meta_fail_world :: world where
  "meta_fail_world = test_world\<lparr>write_fails := (\<lambda>p. p = ''vault.meta'')\<rparr>"

text \<open>
  A world in which no file can be written; the store and world after a \<open>Set\<close> there
  (the save fails, the store stays dirty); and the \<open>Lock\<close> that follows.
\<close>

definition fail_world :: world where
  "fail_world = unlocked_world\<lparr>write_fails := (\<lambda>p. True)\<rparr>"

definition dirty_store :: EncryptedStore where
  "dirty_store = fst (snd (snd (Store_Set test_lib unlocked_store ''db/pw'' test_secret fail_world)))"

definition dirty_world :: world where
  "dirty_world = snd (snd (snd (Store_Set test_lib unlocked_store ''db/pw'' test_secret fail_world)))"

definition failed_lock :: "error option \<times> EncryptedStore \<times> world" where
  "failed_lock = Store_Lock test_lib dirty_store dirty_world"

text \<open>A world whose data file already holds an older vault.\<close>

definition old_vault_world :: world where
  "old_vault_world = unlocked_world\<lparr>files := [''vault.enc'' \<mapsto> [1, 0]]\<rparr>"

subsection \<open>What a reader of the data file can see\<close>

text \<open>
  \<open>never_partial fs evs p d\<close>: while the events \<open>evs\<close> are carried out on the files
  \<open>fs\<close>, the file \<open>p\<close> holds at every moment either what it held before or the
  complete new content \<open>d\<close>. This is the property that a write to a temporary file
  followed by a rename would give.
\<close>

definition never_partial :: "(string \<rightharpoonup> bytes) \<Rightarrow> fs_event list \<Rightarrow> string \<Rightarrow> bytes \<Rightarrow> bool" where
  "never_partial fs evs p d = list_all (\<lambda>fs'. fs' p = fs p \<or> fs' p = Some d) (observable fs evs)"

text \<open>
  The metadata of the vault that \<open>test_password\<close> opens, as \<open>test_lib\<close> decodes it
  from the metadata file, and a world whose metadata file holds it.
\<close>

definition vault_meta :: VaultMeta where
  "vault_meta =
     \<lparr>meta_Version = 1, meta_CreatedAt = 0, meta_Salt = Some (replicate 32 0),
      meta_Argon2Params = DefaultArgon2Params,
      meta_Verification = string_of_bytes (replicate 12 0 @ test_key @ bytes_of_string verificationMagic)\<rparr>"

definition vault_meta_bytes :: bytes where
  "vault_meta_bytes = replicate 32 0 @ [3, 4, 32] @ replicate 12 0 @ test_key @ bytes_of_string verificationMagic"

definition vault_world :: world where
  "vault_world = test_world\<lparr>files := [''vault.meta'' \<mapsto> vault_meta_bytes]\<rparr>"

text \<open>
  The same vault with \<^verbatim>\<open>"time": 0\<close> in the Argon2 parameters of its metadata file,
  and the metadata that the file decodes to.
\<close>

definition zero_time_meta :: VaultMeta where
  "zero_time_meta = vault_meta\<lparr>meta_Argon2Params := DefaultArgon2Params\<lparr>Time := 0\<rparr>\<rparr>"

definition zero_time_meta_bytes :: bytes where
  "zero_time_meta_bytes = replicate 32 0 @ [0, 4, 32] @ replicate 12 0 @ test_key @ bytes_of_string verificationMagic"

definition zero_time_world :: world where
  "zero_time_world = test_world\<lparr>files := [''vault.meta'' \<mapsto> zero_time_meta_bytes]\<rparr>"

subsection \<open>A password that does not match a verification blob\<close>

text \<open>
  \<open>opens_to_magic L k blob\<close>: the blob decodes, and its part after the nonce opens
  under the key \<open>k\<close> to the magic string. A password matches a blob when the key derived
  from it does this.
\<close>

definition opens_to_magic :: "lib \<Rightarrow> bytes \<Rightarrow> string \<Rightarrow> bool" where
  "opens_to_magic L k blob =
     (case base64_DecodeString L blob of
        None \<Rightarrow> False
      | Some ct \<Rightarrow>
          gcm_Open L k (take NonceSize ct) (drop NonceSize ct) = Some (bytes_of_string verificationMagic))"

definition derived_key :: "lib \<Rightarrow> bytes \<Rightarrow> Argon2Params \<Rightarrow> string \<Rightarrow> bytes" where
  "derived_key L sl ps password =
     argon2_IDKey L (bytes_of_string password) sl (Time ps) (Memory ps) (Threads ps) (KeyLen ps)"

subsection \<open>Errors of the final save steps\<close>

text \<open>The errors with which \<open>ChangePassword\<close> and \<open>Initialize\<close> report a failed save.\<close>

fun is_save_error :: "error \<Rightarrow> bool" where
  "is_save_error (Errorf msg e) = (msg = ''failed to save metadata'' \<or> msg = ''failed to save data'')"
| "is_save_error _ = False"

text \<open>The world after \<open>Initialize\<close> on \<open>fresh_store\<close> and \<open>test_world\<close>.\<close>

definition init_world :: world where
  "init_world =
     \<lparr>files = [''vault.meta'' \<mapsto> vault_meta_bytes,
               ''vault.enc'' \<mapsto> [1, 0]],
      fslog = [EvMkdirAll ''.'', EvTruncate ''vault.meta'',
               EvWrite ''vault.meta'' vault_meta_bytes,
               EvMkdirAll ''.'', EvTruncate ''vault.enc'', EvWrite ''vault.enc'' [1, 0]],
      mkdir_fails = (\<lambda>d. False), write_fails = (\<lambda>p. False), read_fails = (\<lambda>p. False),
      mem = [test_key], rng = (\<lambda>i. Some []), rng_calls = 2, clock = 1\<rparr>"

text \<open>
  Two requests \<^verbatim>\<open>PUT /secret/db/pw\<close> with the same body, the second one a tick
  of the clock later.
\<close>

definition put1 :: "response \<times> EncryptedStore \<times> world" where
  "put1 = handleSecret_PUT test_lib unlocked_store ''/secret/db/pw'' (Some test_request) unlocked_world"

definition put2 :: "response \<times> EncryptedStore \<times> world" where
  "put2 = handleSecret_PUT test_lib (fst (snd put1)) ''/secret/db/pw'' (Some test_request)
            ((snd (snd put1))\<lparr>clock := 2\<rparr>)"

definition created_at :: "error + Secret \<Rightarrow> Timestamp option" where
  "created_at r = (case r of Inl e \<Rightarrow> None | Inr x \<Rightarrow> CreatedAt (Metadata x))"

text \<open>A secret whose value is the two bytes FF FE, which are not valid UTF-8.\<close>

definition bin_secret :: Secret where
  "bin_secret = request_secret \<lparr>req_Value = [CHR 0xFF, CHR 0xFE], req_Fields = Map.empty, req_Tags = Map.empty\<rparr>"

definition bin_set :: "error option \<times> Secret \<times> EncryptedStore \<times> world" where
  "bin_set = Store_Set test_lib unlocked_store ''bin'' bin_secret init_world"

definition value_of :: "error + Secret \<Rightarrow> string option" where
  "value_of r = (case r of Inl e \<Rightarrow> None | Inr x \<Rightarrow> Some (Value x))"

text \<open>
  \<open>ChangePassword\<close> on the initialized vault in a world where the data file cannot be
  written: every secret is re-encrypted, the metadata file is saved, the data file is not.
\<close>

definition enc_fail_world :: world where
  "enc_fail_world = init_world\<lparr>write_fails := (\<lambda>p. p = ''vault.enc'')\<rparr>"

definition cp_save_fail :: "error option \<times> EncryptedStore \<times> world" where
  "cp_save_fail = ChangePassword test_lib unlocked_store test_password ''tr0ub4dor'' enc_fail_world"

subsection \<open>Contracts of the libraries\<close>

text \<open>
  \<open>codec_laws L\<close>: decoding base64 inverts encoding, and opening inverts sealing under
  the same key and nonce. \<open>json_roundtrips L x\<close>: the JSON encoding of the secret \<open>x\<close>
  decodes to a secret with the same value, bytes, fields and tags.
\<close>

definition codec_laws :: "lib \<Rightarrow> bool" where
  "codec_laws L =
     ((\<forall>b. base64_DecodeString L (base64_EncodeToString L b) = Some b)
      \<and> (\<forall>k n p. gcm_Open L k n (gcm_Seal L k n p) = Some p))"

definition json_roundtrips :: "lib \<Rightarrow> Secret \<Rightarrow> bool" where
  "json_roundtrips L x =
     (case json_Marshal_Secret L x of
        None \<Rightarrow> False
      | Some j \<Rightarrow>
          (case json_Unmarshal_Secret L j of
             None \<Rightarrow> False
           | Some y \<Rightarrow> Value y = Value x \<and> ValueBytes y = ValueBytes x \<and> Fields y = Fields x
                        \<and> Tags (Metadata y) = Tags (Metadata x)))"

subsection \<open>The invariant of the store\<close>

text \<open>A store that is not locked has its metadata and its map of secrets in memory.\<close>

definition store_wf :: "EncryptedStore \<Rightarrow> bool" where
  "store_wf s = (\<not> isLockedUnsafe s \<longrightarrow> meta s \<noteq> None \<and> data s \<noteq> None)"

subsection \<open>Relations between worlds\<close>

text \<open>
  \<open>same_disk w w'\<close>: the files, the log of file events, the faults and the clock of
  \<open>w'\<close> are those of \<open>w\<close>. \<open>mem_ext w w'\<close>: every buffer of \<open>w\<close> is unchanged in
  \<open>w'\<close>, and every buffer allocated since holds only zero bytes.
\<close>

definition same_disk :: "world \<Rightarrow> world \<Rightarrow> bool" where
  "same_disk w w' =
     (files w' = files w \<and> fslog w' = fslog w \<and> mkdir_fails w' = mkdir_fails w
      \<and> write_fails w' = write_fails w \<and> read_fails w' = read_fails w \<and> clock w' = clock w)"

definition mem_ext :: "world \<Rightarrow> world \<Rightarrow> bool" where
  "mem_ext w w' =
     (length (mem w) \<le> length (mem w') \<and> take (length (mem w)) (mem w') = mem w
      \<and> list_all zeroed (drop (length (mem w)) (mem w')))"

section \<open>Basic facts\<close>

lemma char_of_unat_of_char: "char_of (unat (of_char c :: 8 word)) = c"
proof -
  have "unat (of_char c :: 8 word) = unat (of_nat (of_char c) :: 8 word)"
    by (simp add: of_nat_of_char)
  also have "\<dots> = of_char c mod 256" by (simp add: unat_of_nat)
  also have "\<dots> = (of_char c :: nat)" by simp
  finally have "unat (of_char c :: 8 word) = (of_char c :: nat)" .
  then show ?thesis by (simp only: char_of_char)
qed

lemma of_char_char_of_unat: "of_char (char_of (unat x)) = (x :: 8 word)"
proof -
  have lt: "unat x < 256" using unsigned_less [of x, where ?'a = nat] by simp
  have "(of_char (char_of (unat x)) :: 8 word) = of_nat (of_char (char_of (unat x)))"
    by (simp only: of_nat_of_char)
  also have "(of_char (char_of (unat x)) :: nat) = unat x mod 256" by (rule of_char_of)
  also have "unat x mod 256 = unat x" using lt by simp
  finally show ?thesis by simp
qed

lemma string_of_bytes_of_string [simp]: "string_of_bytes (bytes_of_string s) = s"
  by (simp add: string_of_bytes_def bytes_of_string_def char_of_unat_of_char comp_def)

lemma bytes_of_string_of_bytes [simp]: "bytes_of_string (string_of_bytes b) = b"
  by (simp add: string_of_bytes_def bytes_of_string_def of_char_char_of_unat comp_def)

lemma default_params_ok [simp]: "\<not> argon2_panics DefaultArgon2Params"
  by (simp add: argon2_panics_def DefaultArgon2Params_def)

lemma length_test_key [simp]: "length test_key = 32"
  by (simp add: test_key_def)

lemma unlocked_store_simps [simp]:
  "crypto unlocked_store = Some \<lparr>params = DefaultArgon2Params, salt = replicate 32 0, key = Some 0\<rparr>"
  "data unlocked_store = Some \<lparr>Secrets = DAList.empty\<rparr>"
  "dirty unlocked_store = False"
  "autoSave unlocked_store = True"
  "vaultPath unlocked_store = ''vault.enc''"
  "metaPath unlocked_store = ''vault.meta''"
  by (simp_all add: unlocked_store_def)

lemma not_locked_unlocked_store [simp]: "\<not> isLockedUnsafe unlocked_store"
  by (simp add: isLockedUnsafe_def IsUnlocked_def)

section \<open>Listing\<close>

lemma list_loop_eq: "list_loop pfx xs acc = acc @ filter (prefix pfx) (map fst xs)"
  by (induction pfx xs acc rule: list_loop.induct) auto

text \<open>
  Claim C8. On an unlocked store, \<open>List\<close> with any prefix returns exactly the stored
  paths that have this byte-string prefix (all of them for the empty prefix), each once,
  in ascending lexicographic order.
\<close>

theorem List_sorted_prefix_paths:
  assumes "\<not> isLockedUnsafe s" and "data s = Some d"
  shows "\<exists>ps. Store_List s pfx = Inr ps
           \<and> set ps = {p. DAList.lookup (Secrets d) p \<noteq> None \<and> prefix pfx p}
           \<and> (pfx = [] \<longrightarrow> set ps = {p. DAList.lookup (Secrets d) p \<noteq> None})
           \<and> distinct ps \<and> sorted ps"
proof -
  let ?ks = "map fst (DAList.impl_of (Secrets d))"
  have dk: "distinct ?ks" by simp
  have dom: "set ?ks = {p. DAList.lookup (Secrets d) p \<noteq> None}"
    by (auto simp: DAList.lookup.rep_eq map_of_eq_None_iff)
  have "Store_List s pfx = Inr (sort (filter (prefix pfx) ?ks))"
    using assms by (simp add: Store_List_def sort_Strings_def list_loop_eq)
  moreover have "set (sort (filter (prefix pfx) ?ks)) = {p. DAList.lookup (Secrets d) p \<noteq> None \<and> prefix pfx p}"
    using dom by auto
  moreover have "pfx = [] \<longrightarrow>
      set (sort (filter (prefix pfx) ?ks)) = {p. DAList.lookup (Secrets d) p \<noteq> None}"
    using dom by auto
  moreover have "distinct (sort (filter (prefix pfx) ?ks))" using dk by simp
  moreover have "sorted (sort (filter (prefix pfx) ?ks))" by simp
  ultimately show ?thesis by blast
qed

theorem List_sorted_prefix_paths_witness:
  "\<not> isLockedUnsafe list_store \<and> data list_store = Some list_data
   \<and> (\<exists>ps. Store_List list_store ''a/'' = Inr ps
           \<and> set ps = {p. DAList.lookup (Secrets list_data) p \<noteq> None \<and> prefix ''a/'' p}
           \<and> (''a/'' = [] \<longrightarrow> set ps = {p. DAList.lookup (Secrets list_data) p \<noteq> None})
           \<and> distinct ps \<and> sorted ps)"
proof -
  have h1: "\<not> isLockedUnsafe list_store"
    by (simp add: list_store_def isLockedUnsafe_def IsUnlocked_def)
  have h2: "data list_store = Some list_data"
    by (simp add: list_store_def)
  show ?thesis
    using h1 h2 List_sorted_prefix_paths [OF h1 h2, of "''a/''"] by blast
qed

lemma List_scenario_S4:
  "Store_List list_store ''a/'' = Inr [''a/1'', ''a/2'']"
  "Store_List list_store [] = Inr [''a/1'', ''a/2'', ''b/1'']"
  by (simp_all add: list_store_def list_data_def Store_List_def isLockedUnsafe_def IsUnlocked_def
      sort_Strings_def DAList.update.rep_eq DAList.empty.rep_eq)

section \<open>Frame lemmas\<close>

lemma length_bytes_of_string [simp]: "length (bytes_of_string s) = length s"
  by (simp add: bytes_of_string_def)

lemma same_disk_refl [simp]: "same_disk w w"
  by (simp add: same_disk_def)

lemma same_disk_trans: "same_disk w w1 \<Longrightarrow> same_disk w1 w2 \<Longrightarrow> same_disk w w2"
  by (simp add: same_disk_def)

lemma rand_Read_frame:
  "rand_Read n w = (r, w') \<Longrightarrow> same_disk w w' \<and> mem w' = mem w \<and> rng w' = rng w"
  by (auto simp: rand_Read_def same_disk_def)

lemma rand_Read_length: "rand_Read n w = (Some b, w') \<Longrightarrow> length b = n"
  by (auto simp: rand_Read_def)

lemma alloc_frame:
  "alloc b w = (a, w') \<Longrightarrow> same_disk w w' \<and> a = length (mem w) \<and> mem w' = mem w @ [b]"
  by (auto simp: alloc_def same_disk_def)

lemma wipe_frame: "same_disk w (wipe a w) \<and> length (mem (wipe a w)) = length (mem w)"
  by (simp add: wipe_def same_disk_def)

lemma NewCrypto_frame:
  "NewCrypto sl ps w = (r, w') \<Longrightarrow> same_disk w w' \<and> mem w' = mem w"
  by (auto simp: NewCrypto_def split: option.splits prod.splits sum.splits if_splits
      dest!: rand_Read_frame)

lemma NewCrypto_ok:
  "NewCrypto sl ps w = (Inr c, w') \<Longrightarrow> key c = None \<and> params c = ps \<and> 16 \<le> length (salt c)"
  by (auto simp: NewCrypto_def split: option.splits prod.splits sum.splits if_splits)

lemma Encrypt_frame:
  "Encrypt L c p w = (r, w') \<Longrightarrow> same_disk w w' \<and> mem w' = mem w"
  by (auto simp: Encrypt_def split: option.splits prod.splits if_splits dest!: rand_Read_frame)

lemma Encrypt_Inr:
  "Encrypt L c p w = (Inr enc, w') \<Longrightarrow>
     \<exists>a nonce. key c = Some a \<and> aes_NewCipher L (load a w) \<and> cipher_NewGCM L (load a w)
        \<and> length nonce = NonceSize
        \<and> enc = base64_EncodeToString L (nonce @ gcm_Seal L (load a w) nonce p)
        \<and> mem w' = mem w"
  by (auto simp: Encrypt_def split: option.splits if_splits prod.splits
      dest: rand_Read_length rand_Read_frame)

lemma EncryptString_frame:
  "EncryptString L c p w = (r, w') \<Longrightarrow> same_disk w w' \<and> mem w' = mem w"
  by (simp add: EncryptString_def Encrypt_frame)

lemma os_MkdirAll_frame: "os_MkdirAll d w = (r, w') \<Longrightarrow> mem w' = mem w"
  by (auto simp: os_MkdirAll_def split: if_splits)

lemma os_WriteFile_frame: "os_WriteFile p d w = (r, w') \<Longrightarrow> mem w' = mem w"
  by (auto simp: os_WriteFile_def split: if_splits)

lemma saveMeta_frame: "saveMeta L s w = (r, w') \<Longrightarrow> mem w' = mem w"
  by (auto simp: saveMeta_def split: option.splits prod.splits
      dest!: os_MkdirAll_frame os_WriteFile_frame)

lemma saveData_frame:
  "saveData L s w = (r, s', w') \<Longrightarrow>
     mem w' = mem w \<and> (s' = s \<or> (r = None \<and> s' = s\<lparr>dirty := False\<rparr>))"
  by (auto simp: saveData_def split: option.splits prod.splits
      dest!: os_MkdirAll_frame os_WriteFile_frame)

text \<open>The definitions that a concrete run on \<open>test_lib\<close> unfolds.\<close>

lemmas run_defs =
  VaultExists_def os_Stat_ok_def os_ReadFile_def NewCrypto_def rand_Read_def Crypto_Unlock_def
  DeriveKey_def alloc_def CreateVerificationBlob_def EncryptString_def Encrypt_def
  DecryptString_def Decrypt_def load_def NonceSize_def saveMeta_def saveData_def loadMeta_def
  loadData_def os_MkdirAll_def os_WriteFile_def time_Now_def Crypto_Lock_def wipe_def
  VerifyPassword_def verify_blob_def isLockedUnsafe_def IsLocked_def IsUnlocked_def
  test_lib_def test_world_def unlocked_world_def Let_def

section \<open>\<open>Set\<close> and the caller's secret\<close>

text \<open>
  Claim C9. \<open>Set\<close> works on the caller's \<open>Secret\<close> itself: when the call succeeds, the
  caller's object has \<open>ModifiedAt\<close> overwritten with the write time and \<open>CreatedAt\<close>
  set to it if it was nil, and the entry stored under the path is the encryption of the
  serialization of that very object.
\<close>

theorem Set_mutates_argument:
  assumes "Store_Set L s path secret w = (None, secret', s', w')"
  shows "secret' = stamp (time_Now w) secret
       \<and> ModifiedAt (Metadata secret') = Some (time_Now w)
       \<and> (CreatedAt (Metadata secret) = None \<longrightarrow> CreatedAt (Metadata secret') = Some (time_Now w))
       \<and> (\<exists>d c dt. json_Marshal_Secret L secret' = Some d \<and> crypto s = Some c \<and> data s' = Some dt
             \<and> fst (EncryptString L c (string_of_bytes d) w)
                 = Inr (the (DAList.lookup (Secrets dt) path)))"
proof -
  have st: "ModifiedAt (Metadata (stamp t x)) = Some t"
           "CreatedAt (Metadata x) = None \<longrightarrow> CreatedAt (Metadata (stamp t x)) = Some t" for t x
    by (simp_all add: stamp_def Let_def)
  from assms show ?thesis
    by (auto simp: Store_Set_def Let_def st split: if_splits option.splits sum.splits prod.splits
        dest!: saveData_frame)
qed

lemma Set_test_run:
  "fst (Store_Set test_lib unlocked_store ''db/pw'' test_secret unlocked_world) = None"
  by (simp add: Store_Set_def run_defs)

theorem Set_mutates_argument_witness:
  "\<exists>secret' s' w'.
     Store_Set test_lib unlocked_store ''db/pw'' test_secret unlocked_world = (None, secret', s', w')
     \<and> CreatedAt (Metadata test_secret) = None
     \<and> CreatedAt (Metadata secret') = Some 1 \<and> ModifiedAt (Metadata secret') = Some 1"
proof -
  obtain r secret' s' w' where
    run: "Store_Set test_lib unlocked_store ''db/pw'' test_secret unlocked_world = (r, secret', s', w')"
    by (metis prod_cases4)
  with Set_test_run have r: "r = None" by simp
  have now: "time_Now unlocked_world = 1"
    by (simp add: time_Now_def unlocked_world_def test_world_def)
  have c0: "CreatedAt (Metadata test_secret) = None"
    by (simp add: test_secret_def request_secret_def)
  from Set_mutates_argument [OF run [unfolded r]] c0
  have "CreatedAt (Metadata secret') = Some (time_Now unlocked_world)
      \<and> ModifiedAt (Metadata secret') = Some (time_Now unlocked_world)"
    by blast
  with c0 now run r show ?thesis by simp
qed

section \<open>\<open>ChangePassword\<close> on a locked store\<close>

lemma Get_locked: "isLockedUnsafe s \<Longrightarrow> Store_Get L s path w = Inl (New ''vault is locked'')"
  by (simp add: Store_Get_def)

lemma Set_locked:
  "isLockedUnsafe s \<Longrightarrow> Store_Set L s path x w = (Some (New ''vault is locked''), x, s, w)"
  by (simp add: Store_Set_def)

text \<open>
  Claim C3 says that \<open>ChangePassword\<close> on a locked store (no session) ends with an
  ordinary error. In the code the call dereferences the nil session and panics, while
  \<open>Get\<close>, \<open>Set\<close>, \<open>Delete\<close>, \<open>Exists\<close> and \<open>List\<close> test \<open>isLockedUnsafe\<close> first.
\<close>

theorem ChangePassword_locked_panics:
  assumes "crypto s = None"
  shows "ChangePassword L s oldPassword newPassword w = (Some NilPointerPanic, s, w)
       \<and> is_panic NilPointerPanic
       \<and> Store_Get L s path w = Inl (New ''vault is locked'')"
  using assms by (simp add: ChangePassword_def Store_Get_def isLockedUnsafe_def split: option.splits)

theorem ChangePassword_locked_panics_witness:
  "Store_Lock test_lib unlocked_store unlocked_world = (None, locked_store, wipe 0 unlocked_world)
   \<and> crypto locked_store = None
   \<and> ChangePassword test_lib locked_store test_password ''tr0ub4dor'' (wipe 0 unlocked_world)
       = (Some NilPointerPanic, locked_store, wipe 0 unlocked_world)"
proof -
  have h: "crypto locked_store = None" by (simp add: locked_store_def)
  have l: "Store_Lock test_lib unlocked_store unlocked_world = (None, locked_store, wipe 0 unlocked_world)"
    by (simp add: Store_Lock_def Crypto_Lock_def locked_store_def unlocked_store_def)
  from ChangePassword_locked_panics [OF h] h l show ?thesis by simp
qed

section \<open>\<open>Initialize\<close> when saving fails\<close>


lemma Initialize_meta_fail_run:
  "fst (Initialize test_lib fresh_store test_password meta_fail_world)
     = Some (Errorf ''failed to save metadata'' LibError)"
  by (simp add: Initialize_def run_defs fresh_store_def NewEncryptedStore_def meta_fail_world_def
      test_password_def del: take_append)


section \<open>Locking\<close>

lemma load_wipe: "load a (wipe a w) = replicate (length (load a w)) 0"
  by (simp add: load_def wipe_def)

lemma zeroed_replicate [simp]: "zeroed (replicate n 0)"
  by (simp add: zeroed_def list_all_iff)

lemma Encrypt_locked: "key c = None \<Longrightarrow> Encrypt L c p w = (Inl (New ''vault is locked''), w)"
  by (simp add: Encrypt_def)

lemma Decrypt_locked: "key c = None \<Longrightarrow> Decrypt L c e w = Inl (New ''vault is locked'')"
  by (simp add: Decrypt_def)

lemma Crypto_Lock_key: "key (fst (Crypto_Lock c w)) = None"
  by (simp add: Crypto_Lock_def split: option.splits)

lemma Crypto_Lock_world: "snd (Crypto_Lock c w) = (case key c of None \<Rightarrow> w | Some a \<Rightarrow> wipe a w)"
  by (simp add: Crypto_Lock_def split: option.splits)

text \<open>
  Claim C7, as amended. \<open>Crypto.Lock\<close> in any state, and \<open>EncryptedStore.Lock\<close>
  whenever it returns nil (always when the store is not dirty): every byte of the key
  buffer has been overwritten with zero, the session has no key, every later encrypt,
  decrypt, \<open>Get\<close> or \<open>Set\<close> returns the error \<open>vault is locked\<close>, and a second lock
  succeeds and changes nothing. When \<open>EncryptedStore.Lock\<close> returns an error, the store
  was dirty, \<open>saveData\<close> failed, and store and key buffers are unchanged.
\<close>

theorem Lock_zeroizes_key:
  "(Crypto_Lock c w = (c', w') \<longrightarrow>
      key c' = None
      \<and> (\<forall>a. key c = Some a \<longrightarrow> zeroed (load a w') \<and> length (load a w') = length (load a w))
      \<and> Encrypt L c' p w2 = (Inl (New ''vault is locked''), w2)
      \<and> Decrypt L c' enc w2 = Inl (New ''vault is locked'')
      \<and> Crypto_Lock c' w' = (c', w'))
   \<and> (Store_Lock L s w = (None, s', w') \<longrightarrow>
      isLockedUnsafe s' \<and> crypto s' = None
      \<and> (\<forall>k a. crypto s = Some k \<and> key k = Some a
             \<longrightarrow> zeroed (load a w') \<and> length (load a w') = length (load a w))
      \<and> Store_Get L s' path w2 = Inl (New ''vault is locked'')
      \<and> Store_Set L s' path x w2 = (Some (New ''vault is locked''), x, s', w2)
      \<and> Store_Lock L s' w' = (None, s', w'))
   \<and> (Store_Lock L s w = (Some e, s', w') \<longrightarrow>
      dirty s \<and> s' = s \<and> mem w' = mem w \<and> (\<exists>e0. e = Errorf ''failed to save data'' e0))
   \<and> (\<not> dirty s \<longrightarrow> fst (Store_Lock L s w) = None)"
proof (intro conjI impI)
  assume a: "Crypto_Lock c w = (c', w')"
  then show "key c' = None" by (auto simp: Crypto_Lock_def split: option.splits)
  then show "Encrypt L c' p w2 = (Inl (New ''vault is locked''), w2)"
    and "Decrypt L c' enc w2 = Inl (New ''vault is locked'')"
    and "Crypto_Lock c' w' = (c', w')"
    by (simp_all add: Encrypt_locked Decrypt_locked Crypto_Lock_def)
  from a show "\<forall>a. key c = Some a \<longrightarrow> zeroed (load a w') \<and> length (load a w') = length (load a w)"
    by (auto simp: Crypto_Lock_def load_wipe split: option.splits)
next
  assume a: "Store_Lock L s w = (None, s', w')"
  then show c: "crypto s' = None"
    by (auto simp: Store_Lock_def split: option.splits prod.splits if_splits)
  then show l: "isLockedUnsafe s'" by (simp add: isLockedUnsafe_def)
  from l show "Store_Get L s' path w2 = Inl (New ''vault is locked'')" by (simp add: Store_Get_def)
  from l show "Store_Set L s' path x w2 = (Some (New ''vault is locked''), x, s', w2)"
    by (simp add: Store_Set_def)
  from c show "Store_Lock L s' w' = (None, s', w')" by (simp add: Store_Lock_def)
  show "\<forall>k a. crypto s = Some k \<and> key k = Some a
             \<longrightarrow> zeroed (load a w') \<and> length (load a w') = length (load a w)"
  proof (intro allI impI)
    fix k a
    assume k: "crypto s = Some k \<and> key k = Some a"
    with a obtain w1 where w1: "mem w1 = mem w" "w' = wipe a w1"
      by (auto simp: Store_Lock_def Crypto_Lock_world
          split: option.splits prod.splits if_splits dest!: saveData_frame)
    from w1(1) have "load a w1 = load a w" by (simp add: load_def)
    with w1(2) show "zeroed (load a w') \<and> length (load a w') = length (load a w)"
      by (simp add: load_wipe)
  qed
next
  assume a: "Store_Lock L s w = (Some e, s', w')"
  then show "dirty s" and "s' = s" and "mem w' = mem w" and "\<exists>e0. e = Errorf ''failed to save data'' e0"
    by (auto simp: Store_Lock_def split: option.splits prod.splits if_splits dest!: saveData_frame)
next
  assume "\<not> dirty s"
  then show "fst (Store_Lock L s w) = None"
    by (simp add: Store_Lock_def split: option.splits)
qed

lemma dirty_store_eval:
  "fst (Store_Set test_lib unlocked_store ''db/pw'' test_secret fail_world) = Some LibError"
  "dirty dirty_store"
  "crypto dirty_store = crypto unlocked_store"
  "mem dirty_world = [test_key]"
  "write_fails dirty_world = (\<lambda>p. True)"
  "mkdir_fails dirty_world = (\<lambda>p. False)"
  by (simp_all add: dirty_store_def dirty_world_def Store_Set_def run_defs fail_world_def)

lemma failed_lock_fst: "fst failed_lock = Some (Errorf ''failed to save data'' LibError)"
  by (simp add: failed_lock_def Store_Lock_def dirty_store_eval saveData_def os_MkdirAll_def
      os_WriteFile_def test_lib_def split: option.splits prod.splits)

theorem Lock_zeroizes_key_witness:
  "Crypto_Lock (the (crypto unlocked_store)) unlocked_world
       = ((the (crypto unlocked_store))\<lparr>key := None\<rparr>, wipe 0 unlocked_world)
   \<and> Store_Lock test_lib unlocked_store unlocked_world = (None, locked_store, wipe 0 unlocked_world)
   \<and> \<not> zeroed (load 0 unlocked_world)
   \<and> zeroed (load 0 (wipe 0 unlocked_world))
   \<and> Store_Get test_lib locked_store ''db/pw'' unlocked_world = Inl (New ''vault is locked'')
   \<and> Store_Lock test_lib locked_store (wipe 0 unlocked_world) = (None, locked_store, wipe 0 unlocked_world)
   \<and> dirty dirty_store \<and> fst (snd failed_lock) = dirty_store"
proof -
  let ?c = "the (crypto unlocked_store)"
  have k: "crypto unlocked_store = Some ?c \<and> key ?c = Some 0" by simp
  have cl: "Crypto_Lock ?c unlocked_world = (?c\<lparr>key := None\<rparr>, wipe 0 unlocked_world)"
    by (simp add: Crypto_Lock_def)
  have sl: "Store_Lock test_lib unlocked_store unlocked_world = (None, locked_store, wipe 0 unlocked_world)"
    by (simp add: Store_Lock_def Crypto_Lock_def locked_store_def unlocked_store_def)
  have nz: "\<not> zeroed (load 0 unlocked_world)"
    by (simp add: load_def unlocked_world_def zeroed_def test_key_def test_password_def
        bytes_of_string_def)
  obtain s' w' where fl: "Store_Lock test_lib dirty_store dirty_world
       = (Some (Errorf ''failed to save data'' LibError), s', w')"
    using failed_lock_fst by (cases failed_lock) (simp add: failed_lock_def)
  have fs: "fst (snd failed_lock) = s'" using fl by (simp add: failed_lock_def)
  note ok = Lock_zeroizes_key [where L = test_lib and s = unlocked_store and w = unlocked_world
      and s' = locked_store and w' = "wipe 0 unlocked_world" and c = ?c
      and c' = "?c\<lparr>key := None\<rparr>" and path = "''db/pw''" and ?w2.0 = unlocked_world]
  from ok sl k have z: "zeroed (load 0 (wipe 0 unlocked_world))" by blast
  from ok sl have g: "Store_Get test_lib locked_store ''db/pw'' unlocked_world = Inl (New ''vault is locked'')"
    by blast
  from ok sl have i: "Store_Lock test_lib locked_store (wipe 0 unlocked_world)
      = (None, locked_store, wipe 0 unlocked_world)"
    by blast
  note bad = Lock_zeroizes_key [where L = test_lib and s = dirty_store and w = dirty_world
      and s' = s' and w' = w' and e = "Errorf ''failed to save data'' LibError"]
  from bad fl have d: "dirty dirty_store \<and> s' = dirty_store" by blast
  from cl sl nz z g i d fs show ?thesis by blast
qed

text \<open>
  Claim C7 as stated fails: after a \<open>Set\<close> whose save failed the store is dirty, and
  \<open>Lock\<close> in a world where the data file cannot be written returns an error, leaves
  the store unlocked and the key buffer intact, and encryption still succeeds.
\<close>

theorem Lock_counterexample:
  "fst failed_lock = Some (Errorf ''failed to save data'' LibError)
   \<and> \<not> isLockedUnsafe (fst (snd failed_lock))
   \<and> \<not> zeroed (load 0 (snd (snd failed_lock)))
   \<and> fst (Encrypt test_lib (the (crypto (fst (snd failed_lock)))) [] (snd (snd failed_lock)))
        \<noteq> Inl (New ''vault is locked'')"
  by (simp add: failed_lock_def Store_Lock_def dirty_store_eval saveData_def os_MkdirAll_def
      os_WriteFile_def test_lib_def isLockedUnsafe_def IsUnlocked_def load_def zeroed_def
      test_key_def test_password_def bytes_of_string_def Encrypt_def rand_Read_def NonceSize_def
      split: option.splits prod.splits)

section \<open>Saving the data file\<close>

lemma saveData_ok:
  assumes "saveData L s w = (None, s', w')"
  shows "\<exists>d. json_Marshal_VaultData L (data s) = Some d
           \<and> fslog w' = fslog w @ [EvMkdirAll (filepath_Dir L (vaultPath s)),
                                    EvTruncate (vaultPath s), EvWrite (vaultPath s) d]
           \<and> files w' = (files w)(vaultPath s \<mapsto> d)
           \<and> s' = s\<lparr>dirty := False\<rparr>"
  using assms
  by (auto simp: saveData_def os_MkdirAll_def os_WriteFile_def
      split: option.splits prod.splits if_splits)

text \<open>
  Claim C1, as amended. \<open>saveData\<close> serializes the complete vault and writes it
  directly to the data file with one \<^verbatim>\<open>os.WriteFile\<close> after \<^verbatim>\<open>os.MkdirAll\<close>: the
  events are the creation of the directory, the truncation of the data file itself and
  the write of the complete serialization to it. No other path is written and nothing
  is renamed. A reader sees the old content, then the empty file, then the new content.
  On success the file holds the complete serialization and \<open>dirty\<close> is cleared.
\<close>

theorem saveData_writes_in_place:
  assumes "saveData L s w = (None, s', w')"
  shows "\<exists>d. json_Marshal_VaultData L (data s) = Some d
           \<and> drop (length (fslog w)) (fslog w')
               = [EvMkdirAll (filepath_Dir L (vaultPath s)), EvTruncate (vaultPath s),
                  EvWrite (vaultPath s) d]
           \<and> map (\<lambda>fs. fs (vaultPath s)) (observable (files w) (drop (length (fslog w)) (fslog w')))
               = [files w (vaultPath s), files w (vaultPath s), Some [], Some d]
           \<and> files w' = (files w)(vaultPath s \<mapsto> d)
           \<and> s' = s\<lparr>dirty := False\<rparr>"
proof -
  from saveData_ok [OF assms] obtain d where d:
    "json_Marshal_VaultData L (data s) = Some d"
    "fslog w' = fslog w @ [EvMkdirAll (filepath_Dir L (vaultPath s)),
                            EvTruncate (vaultPath s), EvWrite (vaultPath s) d]"
    "files w' = (files w)(vaultPath s \<mapsto> d)" "s' = s\<lparr>dirty := False\<rparr>"
    by blast
  then show ?thesis by simp
qed

lemma saveData_old_vault_run:
  "saveData test_lib list_store old_vault_world
     = (None, list_store\<lparr>dirty := False\<rparr>,
        old_vault_world\<lparr>files := [''vault.enc'' \<mapsto> [1, 3]],
                         fslog := [EvMkdirAll ''.'', EvTruncate ''vault.enc'', EvWrite ''vault.enc'' [1, 3]]\<rparr>)"
  by (simp add: saveData_def os_MkdirAll_def os_WriteFile_def test_lib_def list_store_def
      list_data_def old_vault_world_def unlocked_world_def test_world_def
      DAList.update.rep_eq DAList.empty.rep_eq)

text \<open>
  Claim C1 as stated fails: saving over an existing data file goes through a state in
  which the data file is empty, which is neither the old nor the new vault.
\<close>

theorem saveData_partial_file_counterexample:
  "fst (saveData test_lib list_store old_vault_world) = None
   \<and> fslog (snd (snd (saveData test_lib list_store old_vault_world)))
       = [EvMkdirAll ''.'', EvTruncate ''vault.enc'', EvWrite ''vault.enc'' [1, 3]]
   \<and> observable (files old_vault_world) (fslog (snd (snd (saveData test_lib list_store old_vault_world))))
        ! 2 = [''vault.enc'' \<mapsto> []]
   \<and> \<not> never_partial (files old_vault_world)
          (fslog (snd (snd (saveData test_lib list_store old_vault_world)))) ''vault.enc'' [1, 3]"
  apply (simp only: saveData_old_vault_run fst_conv snd_conv)
  apply (simp add: never_partial_def old_vault_world_def)
  done


lemma files_old_vault_world: "files old_vault_world = [''vault.enc'' \<mapsto> [1, 0]]"
  by (simp add: old_vault_world_def)

theorem saveData_writes_in_place_witness:
  "saveData test_lib list_store old_vault_world
     = (None, list_store\<lparr>dirty := False\<rparr>,
        old_vault_world\<lparr>files := [''vault.enc'' \<mapsto> [1, 3]],
                         fslog := [EvMkdirAll ''.'', EvTruncate ''vault.enc'', EvWrite ''vault.enc'' [1, 3]]\<rparr>)
   \<and> (\<exists>d. map (\<lambda>fs. fs (vaultPath list_store))
        (observable (files old_vault_world)
           (drop (length (fslog old_vault_world))
              (fslog (old_vault_world\<lparr>files := [''vault.enc'' \<mapsto> [1, 3]],
                         fslog := [EvMkdirAll ''.'', EvTruncate ''vault.enc'', EvWrite ''vault.enc'' [1, 3]]\<rparr>))))
       = [files old_vault_world (vaultPath list_store), files old_vault_world (vaultPath list_store),
          Some [], Some d])"
  apply (rule conjI)
   apply (rule saveData_old_vault_run)
  apply (insert saveData_writes_in_place [OF saveData_old_vault_run])
  apply (elim exE conjE)
  apply (rule exI)
  apply assumption
  done

section \<open>Unlocking with a wrong password\<close>

lemma DeriveKey_eq:
  "\<not> argon2_panics (params c) \<Longrightarrow>
   DeriveKey L c password w
     = (Inr (length (mem w)), w\<lparr>mem := mem w @ [derived_key L (salt c) (params c) password]\<rparr>)"
  by (simp add: DeriveKey_def alloc_def derived_key_def)

lemma DeriveKey_panic:
  "argon2_panics (params c) \<Longrightarrow> DeriveKey L c password w = (Inl Argon2Panic, w)"
  by (simp add: DeriveKey_def)

lemma Crypto_Unlock_eq:
  "\<not> argon2_panics (params c) \<Longrightarrow>
   Crypto_Unlock L c password w
     = (Inr (c\<lparr>key := Some (length (mem w))\<rparr>),
        w\<lparr>mem := mem w @ [derived_key L (salt c) (params c) password]\<rparr>)"
  by (simp add: Crypto_Unlock_def DeriveKey_eq)

lemma VerifyPassword_eq:
  "\<not> argon2_panics (params c) \<Longrightarrow>
   VerifyPassword L c password blob w
     = (Inr (verify_blob L (derived_key L (salt c) (params c) password) blob),
        w\<lparr>mem := mem w @ [replicate (length (derived_key L (salt c) (params c) password)) 0]\<rparr>)"
  by (simp add: VerifyPassword_def DeriveKey_eq load_def wipe_def)

lemma VerifyPassword_panic:
  "argon2_panics (params c) \<Longrightarrow> VerifyPassword L c password blob w = (Inl Argon2Panic, w)"
  by (simp add: VerifyPassword_def DeriveKey_panic)

lemma verify_blob_opens: "verify_blob L k blob \<Longrightarrow> opens_to_magic L k blob"
  by (auto simp: verify_blob_def opens_to_magic_def split: option.splits if_splits)

lemma mem_ext_refl [simp]: "mem_ext w w"
  by (simp add: mem_ext_def)

lemma mem_ext_zero_buffer: "mem_ext w (w\<lparr>mem := mem w @ [replicate n 0]\<rparr>)"
  by (simp add: mem_ext_def)

lemma same_disk_mem_update [simp]: "same_disk w (w\<lparr>mem := m\<rparr>)"
  by (simp add: same_disk_def)

text \<open>
  Claim C4, as amended. For a vault whose metadata file loads, holds a salt of at least
  16 bytes and holds Argon2 parameters on which the key derivation does not panic (passes,
  threads and key length not zero), and a password whose derived key does not open the
  stored verification blob to the magic string: \<open>VerifyPassword\<close> returns false, and
  \<open>Unlock\<close> returns the error \<open>invalid password\<close>, leaves session and data of the store
  as they were (a locked store stays locked), touches no file, and the only buffer it
  allocated, the temporary key, holds zero bytes when it returns.
\<close>

theorem Unlock_wrong_password:
  assumes "os_ReadFile (metaPath s) w = Inr mb"
    and "json_Unmarshal_VaultMeta L mb = Some m"
    and "meta_Salt m = Some sl" and "16 \<le> length sl"
    and "\<not> argon2_panics (meta_Argon2Params m)"
    and "\<not> opens_to_magic L (derived_key L sl (meta_Argon2Params m) password) (meta_Verification m)"
  shows "fst (VerifyPassword L \<lparr>params = meta_Argon2Params m, salt = sl, key = None\<rparr>
               password (meta_Verification m) w) = Inr False
       \<and> (\<exists>s' w'. Store_Unlock L s password w = (Some (New ''invalid password''), s', w')
             \<and> crypto s' = crypto s \<and> data s' = data s
             \<and> isLockedUnsafe s' = isLockedUnsafe s
             \<and> same_disk w w' \<and> mem_ext w w')"
proof -
  let ?k = "derived_key L sl (meta_Argon2Params m) password"
  let ?c = "\<lparr>params = meta_Argon2Params m, salt = sl, key = None\<rparr>"
  from assms(6) have nv: "\<not> verify_blob L ?k (meta_Verification m)"
    using verify_blob_opens by blast
  have np: "\<not> argon2_panics (params ?c)" using assms(5) by simp
  have vp: "VerifyPassword L ?c password (meta_Verification m) w
      = (Inr False, w\<lparr>mem := mem w @ [replicate (length ?k) 0]\<rparr>)"
    using nv by (simp add: VerifyPassword_eq [OF np])
  have ex: "VaultExists s w"
    using assms(1) by (auto simp: VaultExists_def os_Stat_ok_def os_ReadFile_def split: option.splits)
  have lm: "loadMeta L s w = (None, s\<lparr>meta := Some m\<rparr>)"
    using assms(1,2) by (simp add: loadMeta_def)
  have nc: "NewCrypto (meta_Salt m) (meta_Argon2Params m) w = (Inr ?c, w)"
    using assms(3,4) by (simp add: NewCrypto_def)
  have "Store_Unlock L s password w
      = (Some (New ''invalid password''), s\<lparr>meta := Some m\<rparr>, w\<lparr>mem := mem w @ [replicate (length ?k) 0]\<rparr>)"
    by (simp add: Store_Unlock_def ex lm nc vp)
  then show ?thesis
    by (simp add: vp isLockedUnsafe_def mem_ext_zero_buffer)
qed

text \<open>
  The metadata that \<open>Initialize\<close> and \<open>ChangePassword\<close> put into the store carries the
  default parameters, on which the derivation does not panic.
\<close>

lemma Initialize_default_params:
  "Initialize L s password w = (r, s', w') \<Longrightarrow> meta s' \<noteq> meta s \<Longrightarrow>
     \<exists>m. meta s' = Some m \<and> meta_Argon2Params m = DefaultArgon2Params"
  by (auto simp: Initialize_def Let_def Crypto_Unlock_def DeriveKey_def
      split: if_splits option.splits sum.splits prod.splits
      dest!: saveData_frame NewCrypto_ok)

lemma test_lib_simps:
  "aes_NewCipher test_lib = (\<lambda>k. length k = 16 \<or> length k = 24 \<or> length k = 32)"
  "cipher_NewGCM test_lib = (\<lambda>k. True)"
  "gcm_Seal test_lib = (\<lambda>k n p. k @ p)"
  "gcm_Open test_lib = (\<lambda>k n c. if take (length k) c = k then Some (drop (length k) c) else None)"
  "base64_EncodeToString test_lib = string_of_bytes"
  "base64_DecodeString test_lib = (\<lambda>x. Some (bytes_of_string x))"
  "json_Unmarshal_VaultData test_lib = (\<lambda>b. if b = [] then None else Some None)"
  "filepath_Dir test_lib = (\<lambda>p. ''.'')"
  by (simp_all add: test_lib_def)

lemma test_derived_key:
  "derived_key test_lib sl ps pw = take 32 (bytes_of_string pw @ replicate 32 0)"
  by (simp add: derived_key_def test_lib_def)

lemma length_test_derived_key [simp]: "length (derived_key test_lib sl ps pw) = 32"
  by (simp add: test_derived_key)

lemma test_key_derived: "derived_key test_lib sl ps test_password = test_key"
  by (simp add: test_derived_key test_key_def)

lemma wrong_key_differs: "derived_key test_lib sl ps ''wronghorse'' \<noteq> test_key"
  by (simp add: test_derived_key test_key_def test_password_def bytes_of_string_def)

lemma bytes_params_simps [simp]:
  "bytes_params [3, 4, 32] = DefaultArgon2Params"
  "bytes_params [0, 4, 32] = DefaultArgon2Params\<lparr>Time := 0\<rparr>"
  "params_bytes DefaultArgon2Params = [3, 4, 32]"
  by (simp_all add: bytes_params_def params_bytes_def DefaultArgon2Params_def)

lemma vault_meta_read: "os_ReadFile (metaPath locked_store) vault_world
   = Inr vault_meta_bytes"
  by (simp add: os_ReadFile_def locked_store_def unlocked_store_def vault_world_def test_world_def)

lemma vault_meta_decode:
  "json_Unmarshal_VaultMeta test_lib vault_meta_bytes = Some vault_meta"
  by (simp add: test_lib_def vault_meta_def vault_meta_bytes_def)

lemma zero_time_meta_read: "os_ReadFile (metaPath locked_store) zero_time_world
   = Inr zero_time_meta_bytes"
  by (simp add: os_ReadFile_def locked_store_def unlocked_store_def zero_time_world_def test_world_def)

lemma zero_time_meta_decode:
  "json_Unmarshal_VaultMeta test_lib zero_time_meta_bytes = Some zero_time_meta"
  by (simp add: test_lib_def zero_time_meta_def vault_meta_def zero_time_meta_bytes_def)

lemma zero_time_panics: "argon2_panics (meta_Argon2Params zero_time_meta)"
  by (simp add: zero_time_meta_def argon2_panics_def)

lemma wrong_password_no_match:
  "\<not> opens_to_magic test_lib (derived_key test_lib (replicate 32 0) ps ''wronghorse'')
        (meta_Verification vault_meta)"
  using wrong_key_differs [of "replicate 32 0" ps]
  by (simp add: opens_to_magic_def test_lib_simps vault_meta_def NonceSize_def)

lemma loadData_missing:
  "files w (vaultPath s) = None \<Longrightarrow> loadData L s w = (None, s\<lparr>data := Some \<lparr>Secrets = DAList.empty\<rparr>\<rparr>)"
  by (simp add: loadData_def os_ReadFile_def)

lemma right_password_unlocks:
  "fst (Store_Unlock test_lib locked_store test_password vault_world) = None"
proof -
  let ?c = "\<lparr>params = DefaultArgon2Params, salt = replicate 32 0, key = None\<rparr>"
  have ex: "VaultExists locked_store vault_world"
    by (simp add: VaultExists_def os_Stat_ok_def locked_store_def unlocked_store_def
        vault_world_def test_world_def)
  have lm: "loadMeta test_lib locked_store vault_world = (None, locked_store\<lparr>meta := Some vault_meta\<rparr>)"
    by (simp add: loadMeta_def vault_meta_read vault_meta_decode)
  have nc: "NewCrypto (meta_Salt vault_meta) (meta_Argon2Params vault_meta) vault_world = (Inr ?c, vault_world)"
    by (simp add: NewCrypto_def vault_meta_def)
  have vb: "verify_blob test_lib test_key (meta_Verification vault_meta)"
    by (simp add: verify_blob_def test_lib_simps vault_meta_def NonceSize_def)
  have fv: "files (vault_world\<lparr>mem := X\<rparr>)
              (vaultPath (locked_store\<lparr>meta := M, crypto := C, unlockTime := T\<rparr>)) = None"
    for X M C T
    by (simp add: vault_world_def test_world_def locked_store_def unlocked_store_def)
  show ?thesis
    by (simp add: Store_Unlock_def ex lm nc VerifyPassword_eq Crypto_Unlock_eq test_key_derived vb
        loadData_missing [OF fv])
qed

theorem Unlock_wrong_password_witness:
  "isLockedUnsafe locked_store
   \<and> \<not> argon2_panics (meta_Argon2Params vault_meta)
   \<and> fst (VerifyPassword test_lib \<lparr>params = meta_Argon2Params vault_meta, salt = replicate 32 0, key = None\<rparr>
            ''wronghorse'' (meta_Verification vault_meta) vault_world) = Inr False
   \<and> (\<exists>s' w'. Store_Unlock test_lib locked_store ''wronghorse'' vault_world
                 = (Some (New ''invalid password''), s', w')
             \<and> isLockedUnsafe s' \<and> crypto s' = None \<and> same_disk vault_world w'
             \<and> mem_ext vault_world w')"
proof -
  have sl: "meta_Salt vault_meta = Some (replicate 32 0)" by (simp add: vault_meta_def)
  have len: "16 \<le> length (replicate 32 (0::byte))" by simp
  have np: "\<not> argon2_panics (meta_Argon2Params vault_meta)" by (simp add: vault_meta_def)
  have l: "isLockedUnsafe locked_store" "crypto locked_store = None"
    by (simp_all add: locked_store_def isLockedUnsafe_def)
  note T = Unlock_wrong_password [OF vault_meta_read vault_meta_decode sl len np wrong_password_no_match]
  from T obtain s' w' where r:
    "Store_Unlock test_lib locked_store ''wronghorse'' vault_world = (Some (New ''invalid password''), s', w')"
    "crypto s' = crypto locked_store" "isLockedUnsafe s' = isLockedUnsafe locked_store"
    "same_disk vault_world w'" "mem_ext vault_world w'"
    by blast
  from T have v: "fst (VerifyPassword test_lib \<lparr>params = meta_Argon2Params vault_meta, salt = replicate 32 0, key = None\<rparr>
            ''wronghorse'' (meta_Verification vault_meta) vault_world) = Inr False"
    by blast
  from r l have "isLockedUnsafe s' \<and> crypto s' = None" by simp
  with r(1,4,5) l(1) v np show ?thesis by blast
qed

text \<open>
  Claim C4 as stated fails: it speaks of every existing vault. A vault whose metadata
  file holds \<^verbatim>\<open>"time": 0\<close> exists and loads, the password \<open>wronghorse\<close> does not match
  its verification blob, and \<open>VerifyPassword\<close> and \<open>Unlock\<close> end in the panic of
  \<^verbatim>\<open>argon2.IDKey\<close> instead of returning false and the error \<open>invalid password\<close>.
\<close>

theorem Unlock_zero_time_counterexample:
  "os_ReadFile (metaPath locked_store) zero_time_world
     = Inr zero_time_meta_bytes
   \<and> json_Unmarshal_VaultMeta test_lib zero_time_meta_bytes = Some zero_time_meta
   \<and> \<not> opens_to_magic test_lib
          (derived_key test_lib (replicate 32 0) (meta_Argon2Params zero_time_meta) ''wronghorse'')
          (meta_Verification zero_time_meta)
   \<and> fst (VerifyPassword test_lib
             \<lparr>params = meta_Argon2Params zero_time_meta, salt = replicate 32 0, key = None\<rparr>
             ''wronghorse'' (meta_Verification zero_time_meta) zero_time_world) = Inl Argon2Panic
   \<and> fst (Store_Unlock test_lib locked_store ''wronghorse'' zero_time_world) = Some Argon2Panic
   \<and> is_panic Argon2Panic"
proof -
  have nm: "\<not> opens_to_magic test_lib
          (derived_key test_lib (replicate 32 0) (meta_Argon2Params zero_time_meta) ''wronghorse'')
          (meta_Verification zero_time_meta)"
    using wrong_password_no_match [of "meta_Argon2Params zero_time_meta"]
    by (simp add: zero_time_meta_def)
  have vp: "fst (VerifyPassword test_lib
             \<lparr>params = meta_Argon2Params zero_time_meta, salt = replicate 32 0, key = None\<rparr>
             ''wronghorse'' (meta_Verification zero_time_meta) zero_time_world) = Inl Argon2Panic"
    by (simp add: VerifyPassword_panic zero_time_panics)
  have ex: "VaultExists locked_store zero_time_world"
    by (simp add: VaultExists_def os_Stat_ok_def locked_store_def unlocked_store_def
        zero_time_world_def test_world_def)
  have lm: "loadMeta test_lib locked_store zero_time_world = (None, locked_store\<lparr>meta := Some zero_time_meta\<rparr>)"
    by (simp add: loadMeta_def zero_time_meta_read zero_time_meta_decode)
  have nc: "NewCrypto (meta_Salt zero_time_meta) (meta_Argon2Params zero_time_meta) zero_time_world
      = (Inr \<lparr>params = meta_Argon2Params zero_time_meta, salt = replicate 32 0, key = None\<rparr>, zero_time_world)"
    by (simp add: NewCrypto_def zero_time_meta_def vault_meta_def)
  have un: "fst (Store_Unlock test_lib locked_store ''wronghorse'' zero_time_world) = Some Argon2Panic"
    by (simp add: Store_Unlock_def ex lm nc VerifyPassword_panic zero_time_panics)
  from zero_time_meta_read zero_time_meta_decode nm vp un show ?thesis by simp
qed

section \<open>Failure of \<open>ChangePassword\<close>\<close>

lemma mem_ext_app: "mem w' = mem w @ zs \<Longrightarrow> list_all zeroed zs \<Longrightarrow> mem_ext w w'"
  by (simp add: mem_ext_def)

lemma Decrypt_mem_cong: "mem w1 = mem w \<Longrightarrow> Decrypt L c e w1 = Decrypt L c e w"
  by (simp add: Decrypt_def load_def split: option.splits)

lemma DecryptString_mem_cong: "mem w1 = mem w \<Longrightarrow> DecryptString L c e w1 = DecryptString L c e w"
  by (simp add: DecryptString_def Decrypt_mem_cong [of w1 w])

lemma wipe_mem_cong: "mem w1 = mem w \<Longrightarrow> mem (wipe a w1) = mem (wipe a w)"
  by (simp add: wipe_def load_def)

lemma Crypto_Lock_mem_cong: "mem w1 = mem w \<Longrightarrow> mem (snd (Crypto_Lock c w1)) = mem (snd (Crypto_Lock c w))"
  by (simp add: Crypto_Lock_world wipe_mem_cong [of w1 w] split: option.splits)

lemma Crypto_Lock_same_disk: "same_disk w (snd (Crypto_Lock c w))"
  by (simp add: Crypto_Lock_world wipe_frame split: option.splits)

lemma reencrypt_Inl:
  "reencrypt L c nc xs acc w = (Inl e, w') \<Longrightarrow>
     same_disk w w' \<and> mem w' = mem (snd (Crypto_Lock nc w)) \<and> \<not> is_save_error e"
proof (induction xs arbitrary: acc w)
  case Nil
  then show ?case by simp
next
  case (Cons x xs)
  obtain path encrypted where x: "x = (path, encrypted)" by (cases x)
  show ?case
  proof (cases "DecryptString L c encrypted w")
    case (Inl e1)
    with Cons.prems x show ?thesis by (auto simp: Crypto_Lock_same_disk)
  next
    case (Inr decrypted)
    obtain r1 w1 where enc: "EncryptString L nc decrypted w = (r1, w1)" by (cases "EncryptString L nc decrypted w")
    from EncryptString_frame [OF enc] have f: "same_disk w w1" "mem w1 = mem w" by simp_all
    show ?thesis
    proof (cases r1)
      case (Inl e2)
      with Cons.prems x Inr enc have "w' = snd (Crypto_Lock nc w1)"
        "e = Errorf (''failed to re-encrypt secret '' @ path) e2" by simp_all
      then show ?thesis
        using same_disk_trans [OF f(1) Crypto_Lock_same_disk [of w1 nc]]
          Crypto_Lock_mem_cong [OF f(2), of nc]
        by simp
    next
      case (Inr reEncrypted)
      with Cons.prems x \<open>DecryptString L c encrypted w = Inr decrypted\<close> enc
      have "reencrypt L c nc xs (DAList.update path reEncrypted acc) w1 = (Inl e, w')" by simp
      from Cons.IH [OF this] have ih: "same_disk w1 w'" "mem w' = mem (snd (Crypto_Lock nc w1))"
        "\<not> is_save_error e" by simp_all
      from same_disk_trans [OF f(1) ih(1)] ih(2,3) Crypto_Lock_mem_cong [OF f(2), of nc]
      show ?thesis by simp
    qed
  qed
qed

lemma load_mem_cong: "mem w1 = mem w \<Longrightarrow> load a w1 = load a w"
  by (simp add: load_def)

lemma reencrypt_Inr:
  assumes "reencrypt L c nc xs acc w = (Inr ns, w')"
    and "distinct (map fst xs)" and "key nc = Some anc"
  shows "same_disk w w' \<and> mem w' = mem w
     \<and> (\<forall>(p, enc) \<in> set xs. \<exists>pt nonce.
            DecryptString L c enc w = Inr pt \<and> length nonce = NonceSize
            \<and> DAList.lookup ns p
                = Some (base64_EncodeToString L (nonce @ gcm_Seal L (load anc w) nonce (bytes_of_string pt))))
     \<and> (\<forall>p. p \<notin> fst ` set xs \<longrightarrow> DAList.lookup ns p = DAList.lookup acc p)"
  using assms
proof (induction xs arbitrary: acc w)
  case Nil
  then show ?case by simp
next
  case (Cons x xs)
  obtain path encrypted where x: "x = (path, encrypted)" by (cases x)
  from Cons.prems(1) x obtain decrypted where d: "DecryptString L c encrypted w = Inr decrypted"
    by (cases "DecryptString L c encrypted w") auto
  obtain r1 w1 where enc: "EncryptString L nc decrypted w = (r1, w1)"
    by (cases "EncryptString L nc decrypted w")
  from EncryptString_frame [OF enc] have f: "same_disk w w1" "mem w1 = mem w" by simp_all
  from Cons.prems(1) x d enc obtain reEncrypted where r: "r1 = Inr reEncrypted"
    by (cases r1) auto
  from Encrypt_Inr [OF enc [unfolded EncryptString_def r]] Cons.prems(3)
  obtain nonce where n: "length nonce = NonceSize"
    "reEncrypted = base64_EncodeToString L (nonce @ gcm_Seal L (load anc w) nonce (bytes_of_string decrypted))"
    by auto
  from Cons.prems(2) x have dist: "distinct (map fst xs)" "path \<notin> fst ` set xs" by auto
  from Cons.prems(1) x d enc r
  have "reencrypt L c nc xs (DAList.update path reEncrypted acc) w1 = (Inr ns, w')" by simp
  from Cons.IH [OF this dist(1) Cons.prems(3)] have ih:
    "same_disk w1 w'" "mem w' = mem w1"
    "\<forall>(p, enc) \<in> set xs. \<exists>pt nonce.
        DecryptString L c enc w1 = Inr pt \<and> length nonce = NonceSize
        \<and> DAList.lookup ns p
            = Some (base64_EncodeToString L (nonce @ gcm_Seal L (load anc w1) nonce (bytes_of_string pt)))"
    "\<forall>p. p \<notin> fst ` set xs \<longrightarrow> DAList.lookup ns p = DAList.lookup (DAList.update path reEncrypted acc) p"
    by simp_all
  have ld: "load anc w1 = load anc w" by (rule load_mem_cong [OF f(2)])
  have dc: "DecryptString L c e w1 = DecryptString L c e w" for e
    by (rule DecryptString_mem_cong [OF f(2)])
  have here: "DAList.lookup ns path = Some reEncrypted"
    using ih(4) dist(2) by simp
  have "same_disk w w'" using f(1) ih(1) by (rule same_disk_trans)
  moreover have "mem w' = mem w" using f ih by simp
  moreover have "\<forall>(p, enc) \<in> set (x # xs). \<exists>pt nonce.
        DecryptString L c enc w = Inr pt \<and> length nonce = NonceSize
        \<and> DAList.lookup ns p
            = Some (base64_EncodeToString L (nonce @ gcm_Seal L (load anc w) nonce (bytes_of_string pt)))"
    using ih(3) d x here n by (auto simp: ld dc)
  moreover have "\<forall>p. p \<notin> fst ` set (x # xs) \<longrightarrow> DAList.lookup ns p = DAList.lookup acc p"
    using ih(4) x by (auto simp: DAList.lookup_update)
  ultimately show ?case by blast
qed

lemma Crypto_Lock_mem:
  "key nc = Some a \<Longrightarrow> mem w = xs @ [k] \<Longrightarrow> a = length xs
     \<Longrightarrow> mem (snd (Crypto_Lock nc w)) = xs @ [replicate (length k) 0]"
  by (simp add: Crypto_Lock_world wipe_def load_def)


lemma list_store_simps:
  "crypto list_store = Some \<lparr>params = DefaultArgon2Params, salt = replicate 32 0, key = Some 0\<rparr>"
  "data list_store = Some list_data"
  "meta list_store = meta unlocked_store"
  by (simp_all add: list_store_def)

lemma list_data_impl:
  "DAList.impl_of (Secrets list_data) = [(''a/1'', ''z''), (''a/2'', ''y''), (''b/1'', ''x'')]"
  by (simp add: list_data_def DAList.update.rep_eq DAList.empty.rep_eq)

lemma ChangePassword_corrupt_run:
  "fst (ChangePassword test_lib list_store test_password ''tr0ub4dor'' unlocked_world)
     = Some (Errorf ''failed to decrypt secret a/1'' (New ''ciphertext too short''))"
  by (simp add: ChangePassword_def list_store_simps list_data_impl unlocked_store_def
      VerifyPassword_eq verify_blob_def test_key_derived test_lib_simps NonceSize_def
      NewCrypto_def rand_Read_def Crypto_Unlock_def DeriveKey_eq CreateVerificationBlob_def
      EncryptString_def Encrypt_def load_def DecryptString_def Decrypt_def
      unlocked_world_def test_world_def)

lemma test_lib_save_simps:
  "json_MarshalIndent_VaultMeta test_lib (Some v)
     = Some ((case meta_Salt v of None \<Rightarrow> [] | Some sl \<Rightarrow> sl) @ params_bytes (meta_Argon2Params v)
             @ bytes_of_string (meta_Verification v))"
  "json_Marshal_VaultData test_lib (Some dv) = Some [1, of_nat (length (DAList.impl_of (Secrets dv)))]"
  by (simp_all add: test_lib_def)

lemma new_key_differs: "derived_key test_lib sl ps ''tr0ub4dor'' \<noteq> test_key"
  by (simp add: test_derived_key test_key_def test_password_def bytes_of_string_def)

lemma test_key_not_zeroed: "\<not> zeroed test_key"
  by (simp add: zeroed_def test_key_def test_password_def bytes_of_string_def)

lemmas cp_defs =
  cp_save_fail_def enc_fail_world_def init_world_def ChangePassword_def unlocked_store_def
  VerifyPassword_eq verify_blob_def test_key_derived test_lib_simps test_lib_save_simps NonceSize_def
  NewCrypto_def rand_Read_def Crypto_Unlock_eq CreateVerificationBlob_def
  EncryptString_def Encrypt_def load_def Crypto_Lock_def wipe_def
  saveMeta_def saveData_def os_MkdirAll_def os_WriteFile_def DAList.empty.rep_eq Let_def

lemma cp_save_fail_eval:
  "fst cp_save_fail = Some (Errorf ''failed to save data'' LibError)"
  "crypto (fst (snd cp_save_fail))
     = Some \<lparr>params = DefaultArgon2Params, salt = replicate 32 0, key = Some 2\<rparr>"
  "mem (snd (snd cp_save_fail))
     = [replicate 32 0, replicate 32 0, derived_key test_lib (replicate 32 0) DefaultArgon2Params ''tr0ub4dor'']"
  "files (snd (snd cp_save_fail)) ''vault.meta''
     = Some (replicate 32 0 @ [3, 4, 32] @ replicate 12 0
             @ derived_key test_lib (replicate 32 0) DefaultArgon2Params ''tr0ub4dor''
             @ bytes_of_string verificationMagic)"
  "map_option meta_Verification (meta (fst (snd cp_save_fail)))
     = Some (string_of_bytes (replicate 12 0
             @ derived_key test_lib (replicate 32 0) DefaultArgon2Params ''tr0ub4dor''
             @ bytes_of_string verificationMagic))"
  by (simp_all add: cp_defs)


lemma string_of_bytes_inj: "(string_of_bytes a = string_of_bytes b) = (a = b)"
  by (metis bytes_of_string_of_bytes)



section \<open>Round trip of a secret\<close>

lemma Decrypt_Encrypt:
  assumes "codec_laws L" and "Encrypt L c p w = (Inr enc, w1)" and "mem w2 = mem w"
  shows "Decrypt L c enc w2 = Inr p"
proof -
  from Encrypt_Inr [OF assms(2)] obtain a nonce where e:
    "key c = Some a" "aes_NewCipher L (load a w)" "cipher_NewGCM L (load a w)"
    "length nonce = NonceSize"
    "enc = base64_EncodeToString L (nonce @ gcm_Seal L (load a w) nonce p)"
    by blast
  have ld: "load a w2 = load a w" using assms(3) by (simp add: load_def)
  from assms(1) have b: "base64_DecodeString L enc = Some (nonce @ gcm_Seal L (load a w) nonce p)"
    and g: "gcm_Open L (load a w) nonce (gcm_Seal L (load a w) nonce p) = Some p"
    by (simp_all add: codec_laws_def e(5))
  show ?thesis
    by (simp add: Decrypt_def e(1,2,3,4) ld b g)
qed

lemma stamp_fields [simp]:
  "Value (stamp t x) = Value x" "ValueBytes (stamp t x) = ValueBytes x"
  "Fields (stamp t x) = Fields x" "Tags (Metadata (stamp t x)) = Tags (Metadata x)"
  by (simp_all add: stamp_def Let_def)

lemma Set_Get_roundtrip:
  assumes laws: "codec_laws L"
    and set: "Store_Set L s path secret w = (None, secret', s', w')"
    and js: "json_roundtrips L (stamp (time_Now w) secret)"
  shows "\<exists>got. Store_Get L s' path w' = Inr got
           \<and> Value got = Value secret \<and> ValueBytes got = ValueBytes secret
           \<and> Fields got = Fields secret \<and> Tags (Metadata got) = Tags (Metadata secret)"
proof -
  let ?x = "stamp (time_Now w) secret"
  from js obtain j y where j: "json_Marshal_Secret L ?x = Some j" "json_Unmarshal_Secret L j = Some y"
    "Value y = Value secret" "ValueBytes y = ValueBytes secret" "Fields y = Fields secret"
    "Tags (Metadata y) = Tags (Metadata secret)"
    by (auto simp: json_roundtrips_def split: option.splits)
  from set have nl: "\<not> isLockedUnsafe s" by (auto simp: Store_Set_def)
  then obtain c where c: "crypto s = Some c" by (auto simp: isLockedUnsafe_def split: option.splits)
  from set nl j(1) c obtain enc w1 dt where
    enc: "EncryptString L c (string_of_bytes j) w = (Inr enc, w1)" and dt: "data s = Some dt"
    by (auto simp: Store_Set_def Let_def split: option.splits sum.splits prod.splits)
  let ?s1 = "s\<lparr>data := Some (dt\<lparr>Secrets := DAList.update path enc (Secrets dt)\<rparr>), dirty := True\<rparr>"
  from set nl j(1) c enc dt have s': "(s' = ?s1 \<or> s' = ?s1\<lparr>dirty := False\<rparr>) \<and> mem w' = mem w1"
    by (auto simp: Store_Set_def Let_def split: if_splits prod.splits dest!: saveData_frame)
  from EncryptString_frame [OF enc] s' have mw: "mem w' = mem w" by simp
  from s' c nl have c': "crypto s' = Some c" "\<not> isLockedUnsafe s'"
    by (auto simp: isLockedUnsafe_def)
  from s' have d': "data s' = Some (dt\<lparr>Secrets := DAList.update path enc (Secrets dt)\<rparr>)" by auto
  have "Decrypt L c enc w' = Inr (bytes_of_string (string_of_bytes j))"
    using Decrypt_Encrypt [OF laws enc [unfolded EncryptString_def] mw] .
  then have "DecryptString L c enc w' = Inr (string_of_bytes j)"
    by (simp add: DecryptString_def)
  then have "Store_Get L s' path w' = Inr y"
    by (simp add: Store_Get_def c' d' j(2))
  with j show ?thesis by simp
qed

lemma Initialize_ok_state:
  "Initialize L s password w = (None, s1, w1) \<Longrightarrow> data s1 = Some \<lparr>Secrets = DAList.empty\<rparr>"
  by (auto simp: Initialize_def Let_def split: if_splits option.splits sum.splits prod.splits
      dest!: saveData_frame)



lemma test_codec_laws: "codec_laws test_lib"
  by (simp add: codec_laws_def test_lib_simps)

lemma length_test_password [simp]: "length test_password = 12"
  by (simp add: test_password_def)

lemma Initialize_test_run:
  "Initialize test_lib fresh_store test_password test_world = (None, unlocked_store, init_world)"
  by (simp add: Initialize_def run_defs fresh_store_def NewEncryptedStore_def unlocked_store_def
      init_world_def test_key_def vault_meta_bytes_def DAList.empty.rep_eq)

lemma Set_init_run:
  "fst (Store_Set test_lib unlocked_store ''db/pw'' test_secret init_world) = None"
  by (simp add: Store_Set_def run_defs init_world_def)

lemma to_valid_utf8_ascii: "to_valid_utf8 ''s3cret'' = ''s3cret''"
  by (simp add: to_valid_utf8_def rune_size_def)

lemma to_valid_utf8_bin:
  "to_valid_utf8 [CHR 0xFF, CHR 0xFE] = [CHR 0xEF, CHR 0xBF, CHR 0xBD, CHR 0xEF, CHR 0xBF, CHR 0xBD]"
  by (simp add: to_valid_utf8_def rune_size_def replacement_char_def)

lemma test_secret_roundtrips: "json_roundtrips test_lib (stamp (time_Now init_world) test_secret)"
  by (simp add: json_roundtrips_def test_lib_def stamp_def Let_def test_secret_def request_secret_def
      test_request_def to_valid_utf8_ascii)




lemma bin_set_run: "fst bin_set = None"
  by (simp add: bin_set_def Store_Set_def run_defs init_world_def)

lemma bin_get_run:
  "value_of (Store_Get test_lib (fst (snd (snd bin_set))) ''bin'' (snd (snd (snd bin_set))))
     = Some [CHR 0xEF, CHR 0xBF, CHR 0xBD, CHR 0xEF, CHR 0xBF, CHR 0xBD]"
  by (simp add: bin_set_def Store_Set_def Store_Get_def value_of_def run_defs init_world_def
      unlocked_store_def stamp_def bin_secret_def request_secret_def to_valid_utf8_bin
      DAList.lookup.rep_eq DAList.update.rep_eq DAList.empty.rep_eq)



section \<open>Timestamps of a secret written through the daemon\<close>

lemma stamp_request:
  "stamp t (request_secret req)
     = (request_secret req)\<lparr>Metadata := (Metadata (request_secret req))\<lparr>CreatedAt := Some t, ModifiedAt := Some t\<rparr>\<rparr>"
  by (simp add: stamp_def request_secret_def)

text \<open>
  What the handler does on every successful \<^verbatim>\<open>PUT /secret/<path>\<close>: it stores, under
  the path, the encryption of a secret whose \<open>CreatedAt\<close> and \<open>ModifiedAt\<close> are both the
  time of this write. The handler builds a secret without \<open>CreatedAt\<close>, and \<open>Set\<close>
  stamps \<open>CreatedAt\<close> whenever its argument has none; the secret already stored under
  the path is not read.
\<close>

lemma PUT_stamps_both_timestamps:
  assumes "handleSecret_PUT L s url_path (Some req) w = (WriteSuccess msg, s', w')"
  shows "\<exists>d c dt.
           json_Marshal_Secret L
             ((request_secret req)\<lparr>Metadata := (Metadata (request_secret req))
                 \<lparr>CreatedAt := Some (time_Now w), ModifiedAt := Some (time_Now w)\<rparr>\<rparr>) = Some d
           \<and> crypto s = Some c \<and> data s' = Some dt
           \<and> fst (EncryptString L c (string_of_bytes d) w)
               = Inr (the (DAList.lookup (Secrets dt) (strings_TrimPrefix url_path ''/secret/'')))"
proof -
  let ?path = "strings_TrimPrefix url_path ''/secret/''"
  from assms obtain secret' where
    set: "Store_Set L s ?path (request_secret req) w = (None, secret', s', w')"
    by (auto simp: handleSecret_PUT_def setSecret_def Let_def split: if_splits option.splits prod.splits)
  then show ?thesis
    by (auto simp: Store_Set_def Let_def stamp_request
        split: if_splits option.splits sum.splits prod.splits dest!: saveData_frame)
qed

lemma put1_eval:
  "fst put1 = WriteSuccess ''secret saved''"
  "created_at (Store_Get test_lib (fst (snd put1)) ''db/pw'' (snd (snd put1))) = Some 1"
  by (simp_all add: put1_def handleSecret_PUT_def strings_TrimPrefix_def setSecret_def Store_Set_def
      Store_Get_def created_at_def run_defs stamp_def test_request_def request_secret_def
      ts_byte_def byte_ts_def DAList.update.rep_eq DAList.empty.rep_eq DAList.lookup.rep_eq)


lemmas put_defs =
  handleSecret_PUT_def strings_TrimPrefix_def setSecret_def Store_Set_def Store_Get_def
  created_at_def run_defs stamp_def test_request_def request_secret_def ts_byte_def byte_ts_def
  DAList.update.rep_eq DAList.empty.rep_eq DAList.lookup.rep_eq

text \<open>
  Claim C6: across successful writes of a path through \<^verbatim>\<open>PUT /secret/<path>\<close>,
  \<open>CreatedAt\<close> is stamped by the first insert and never changes afterwards, while
  \<open>ModifiedAt\<close> is updated by every write. The code does not keep it: after two
  successful writes of the same path at times 1 and 2, the stored secret has
  \<open>CreatedAt = 2\<close>, where the first write had left \<open>CreatedAt = 1\<close>.
\<close>

theorem PUT_overwrite_resets_created_at:
  "fst put1 = WriteSuccess ''secret saved'' \<and> fst put2 = WriteSuccess ''secret saved''
   \<and> created_at (Store_Get test_lib (fst (snd put1)) ''db/pw'' (snd (snd put1))) = Some 1
   \<and> created_at (Store_Get test_lib (fst (snd put2)) ''db/pw'' (snd (snd put2))) = Some 2"
  by (simp add: put2_def put1_def put_defs)

lemma PUT_stamps_both_timestamps_run:
  "\<exists>s' w' d dt.
     handleSecret_PUT test_lib unlocked_store ''/secret/db/pw'' (Some test_request) unlocked_world
       = (WriteSuccess ''secret saved'', s', w')
     \<and> json_Marshal_Secret test_lib
          ((request_secret test_request)\<lparr>Metadata := (Metadata (request_secret test_request))
              \<lparr>CreatedAt := Some 1, ModifiedAt := Some 1\<rparr>\<rparr>) = Some d
     \<and> data s' = Some dt \<and> DAList.lookup (Secrets dt) ''db/pw'' \<noteq> None"
proof -
  obtain r s' w' where run:
    "handleSecret_PUT test_lib unlocked_store ''/secret/db/pw'' (Some test_request) unlocked_world = (r, s', w')"
    by (metis prod_cases3)
  with put1_eval(1) have r: "r = WriteSuccess ''secret saved''" by (simp add: put1_def)
  have now: "time_Now unlocked_world = 1" by (simp add: time_Now_def unlocked_world_def test_world_def)
  have tp: "strings_TrimPrefix ''/secret/db/pw'' ''/secret/'' = ''db/pw''"
    by (simp add: strings_TrimPrefix_def)
  from PUT_stamps_both_timestamps [OF run [unfolded r], unfolded now tp]
  obtain d dt where d:
    "json_Marshal_Secret test_lib
          ((request_secret test_request)\<lparr>Metadata := (Metadata (request_secret test_request))
              \<lparr>CreatedAt := Some 1, ModifiedAt := Some 1\<rparr>\<rparr>) = Some d"
    "data s' = Some dt"
    by blast
  have "DAList.lookup (Secrets (the (data (fst (snd put1))))) ''db/pw'' \<noteq> None"
    by (simp add: put1_def put_defs)
  with run d(2) have "DAList.lookup (Secrets dt) ''db/pw'' \<noteq> None" by (simp add: put1_def)
  with run r d show ?thesis by blast
qed

section \<open>Every operation keeps the invariant of the store\<close>

text \<open>
  The theorems about unlocked stores assume metadata and data in memory. A new store
  has this property and every operation keeps it, whatever it returns.
\<close>

lemma NewEncryptedStore_wf: "store_wf (NewEncryptedStore vp mp)"
  by (simp add: store_wf_def NewEncryptedStore_def isLockedUnsafe_def)

lemma saveData_wf: "saveData L s w = (r, s', w') \<Longrightarrow> store_wf s \<Longrightarrow> store_wf s'"
  by (auto simp: store_wf_def isLockedUnsafe_def dest!: saveData_frame)

lemma Initialize_wf: "Initialize L s password w = (r, s', w') \<Longrightarrow> store_wf s \<Longrightarrow> store_wf s'"
  by (auto simp: Initialize_def Let_def store_wf_def isLockedUnsafe_def
      split: if_splits option.splits sum.splits prod.splits dest!: saveData_frame)

lemma loadMeta_keeps: "loadMeta L s w = (r, s') \<Longrightarrow>
    crypto s' = crypto s \<and> data s' = data s \<and> (r = None \<longrightarrow> meta s' \<noteq> None) \<and> (meta s \<noteq> None \<longrightarrow> meta s' \<noteq> None)"
  by (auto simp: loadMeta_def split: sum.splits option.splits)

lemma loadData_keeps: "loadData L s w = (r, s') \<Longrightarrow>
    crypto s' = crypto s \<and> meta s' = meta s \<and> (r = None \<longrightarrow> data s' \<noteq> None) \<and> (r \<noteq> None \<longrightarrow> s' = s)"
  by (auto simp: loadData_def split: sum.splits option.splits if_splits)

lemma Unlock_wf: "Store_Unlock L s password w = (r, s', w') \<Longrightarrow> store_wf s \<Longrightarrow> store_wf s'"
  by (auto simp: Store_Unlock_def Let_def store_wf_def isLockedUnsafe_def
      split: if_splits option.splits sum.splits prod.splits dest!: loadMeta_keeps loadData_keeps)

lemma Lock_wf: "Store_Lock L s w = (r, s', w') \<Longrightarrow> store_wf s \<Longrightarrow> store_wf s'"
  by (auto simp: Store_Lock_def store_wf_def isLockedUnsafe_def
      split: if_splits option.splits prod.splits dest!: saveData_frame)

lemma Set_wf: "Store_Set L s path x w = (r, x', s', w') \<Longrightarrow> store_wf s \<Longrightarrow> store_wf s'"
  by (auto simp: Store_Set_def Let_def store_wf_def isLockedUnsafe_def
      split: if_splits option.splits sum.splits prod.splits dest!: saveData_frame)

lemma Delete_wf: "Store_Delete L s path w = (r, s', w') \<Longrightarrow> store_wf s \<Longrightarrow> store_wf s'"
  by (auto simp: Store_Delete_def Let_def store_wf_def isLockedUnsafe_def
      split: if_splits option.splits sum.splits prod.splits dest!: saveData_frame)

lemma ChangePassword_wf:
  "ChangePassword L s old new w = (r, s', w') \<Longrightarrow> store_wf s \<Longrightarrow> store_wf s'"
  by (auto simp: ChangePassword_def Let_def store_wf_def isLockedUnsafe_def IsUnlocked_def
      Crypto_Unlock_def DeriveKey_eq
      split: if_splits option.splits sum.splits prod.splits dest!: saveData_frame)

end
